theory Spec2Isabelle
  imports Complex_Main "HOL-Library.Log_Nat"
begin

section \<open>Driver Telemetry: the analytics core\<close>

text \<open>
  A shallow embedding of the analytics engine: the versioned cache with a time to live,
  the derivation of cycle and lead time from an issue's changelog, the concurrent-load
  count, the burnout scorer, the chemistry scorer and the Monte Carlo sprint predictor.

  Conventions. A JavaScript \<open>Date\<close> is the integer \<open>getTime()\<close> gives (milliseconds
  since the epoch); \<open>new Date()\<close> is a parameter \<open>now\<close>. A JavaScript \<open>number\<close> that
  only ever holds a count or a floored quotient is an \<open>int\<close> or \<open>nat\<close>; one that holds a
  mean, a ratio or a fractional number of hours is a \<open>rat\<close>. The mean of
  \<open>average\<close> and the arithmetic of the chemistry scorer, where the last bit of a double
  can decide a threshold test, round every sum and quotient as IEEE 754 double precision
  does (\<open>round_double\<close>); the other sums, products and quotients are exact. A rejected
  promise or a thrown exception is the \<open>Inl\<close> of a sum.
\<close>

datatype error = StorageError | TypeError

subsection \<open>Cache models (models/cache.ts)\<close>

record 'a CacheEntry =
  data :: 'a
  lastUpdated :: int
  ttlHours :: rat
  version :: string

datatype Namespace =
  NS_timing | NS_strengths | NS_collaboration | NS_load | NS_trends
  | NS_status | NS_burnout | NS_pitcrew | NS_predictions

fun namespace_string :: "Namespace \<Rightarrow> string" where
  "namespace_string NS_timing = ''timing''"
| "namespace_string NS_strengths = ''strengths''"
| "namespace_string NS_collaboration = ''collaboration''"
| "namespace_string NS_load = ''load''"
| "namespace_string NS_trends = ''trends''"
| "namespace_string NS_status = ''status''"
| "namespace_string NS_burnout = ''burnout''"
| "namespace_string NS_pitcrew = ''pitcrew''"
| "namespace_string NS_predictions = ''predictions''"

record CacheKey =
  namespace :: Namespace
  accountId :: string
  suffix :: "string option"

fun join_colon :: "string list \<Rightarrow> string" where
  "join_colon [] = []"
| "join_colon [p] = p"
| "join_colon (p # q # ps) = p @ '':'' @ join_colon (q # ps)"

text \<open>\<open>parts.join(':')\<close>; the suffix is pushed when it is truthy, that is present and
  not the empty string.\<close>

definition buildCacheKey :: "CacheKey \<Rightarrow> string" where
  "buildCacheKey key =
     (let parts = [''user'', accountId key, namespace_string (namespace key)]
      in join_colon (case suffix key of
                       None \<Rightarrow> parts
                     | Some s \<Rightarrow> if s = [] then parts else parts @ [s]))"

definition CACHE_VERSION :: string where
  "CACHE_VERSION = ''1.2.0''"

definition DEFAULT_TTL_HOURS :: rat where
  "DEFAULT_TTL_HOURS = 24"

definition STATUS_TTL_HOURS :: rat where
  "STATUS_TTL_HOURS = 1 / 4"

subsection \<open>The persistent store\<close>

text \<open>
  The platform's key/value storage, an external collaborator: a finite map from key
  strings to entries. Its calls are promises that may reject; \<open>failing\<close> says that
  every call on this store rejects.
\<close>

record 'a Storage =
  entries :: "string \<rightharpoonup> 'a CacheEntry"
  failing :: bool

definition storage_get :: "'a Storage \<Rightarrow> string \<Rightarrow> error + 'a CacheEntry option" where
  "storage_get st k = (if failing st then Inl StorageError else Inr (entries st k))"

definition storage_set :: "'a Storage \<Rightarrow> string \<Rightarrow> 'a CacheEntry \<Rightarrow> error + 'a Storage" where
  "storage_set st k e =
     (if failing st then Inl StorageError else Inr (st\<lparr>entries := (entries st)(k \<mapsto> e)\<rparr>))"

definition storage_delete :: "'a Storage \<Rightarrow> string \<Rightarrow> error + 'a Storage" where
  "storage_delete st k =
     (if failing st then Inl StorageError else Inr (st\<lparr>entries := (entries st)(k := None)\<rparr>))"

subsection \<open>Cache layer (data/cache.ts)\<close>

text \<open>
  \<open>getCached\<close> returns the payload or \<open>null\<close> (\<open>None\<close>) together with the store it
  leaves behind. Every exception inside its \<open>try\<close> is caught and turned into \<open>null\<close>.
  The age is compared with the \<open>ttlHours\<close> argument of the call.
\<close>

definition getCached :: "CacheKey \<Rightarrow> rat \<Rightarrow> int \<Rightarrow> 'a Storage \<Rightarrow> 'a option \<times> 'a Storage" where
  "getCached key ttl now st =
     (let cacheKey = buildCacheKey key in
      case storage_get st cacheKey of
        Inl err \<Rightarrow> (None, st)
      | Inr None \<Rightarrow> (None, st)
      | Inr (Some entry) \<Rightarrow>
          if version entry \<noteq> CACHE_VERSION then
            (case storage_delete st cacheKey of
               Inl err \<Rightarrow> (None, st)
             | Inr st' \<Rightarrow> (None, st'))
          else
            (let age = now - lastUpdated entry;
                 maxAge = ttl * 60 * 60 * 1000
             in if of_int age > maxAge then (None, st) else (Some (data entry), st)))"

text \<open>\<open>setCache\<close> rethrows a failed write.\<close>

definition setCache :: "CacheKey \<Rightarrow> 'a \<Rightarrow> rat \<Rightarrow> int \<Rightarrow> 'a Storage \<Rightarrow> error + 'a Storage" where
  "setCache key payload ttl now st =
     (let cacheKey = buildCacheKey key;
          entry = \<lparr>data = payload, lastUpdated = now, ttlHours = ttl, version = CACHE_VERSION\<rparr>
      in storage_set st cacheKey entry)"

definition invalidateCache :: "CacheKey \<Rightarrow> 'a Storage \<Rightarrow> 'a Storage" where
  "invalidateCache key st =
     (case storage_delete st (buildCacheKey key) of Inl err \<Rightarrow> st | Inr st' \<Rightarrow> st')"

subsection \<open>Issue models (models/issue.ts) and date helpers (utils/dateHelpers.ts)\<close>

text \<open>
  One changelog record per changed field. The list handed to the metric functions is the
  one \<open>parseChangelogs\<close> returns, sorted by ascending timestamp.
\<close>

record IssueChangelog =
  id_cl :: string
  issueKey :: string
  timestamp :: int
  author :: string
  authorAccountId :: string
  field :: string
  fromValue :: string
  toValue :: string

text \<open>\<open>Math.floor(diffMs / (1000 * 60 * 60 * 24))\<close>: integer division on \<open>int\<close> rounds
  towards minus infinity, as \<open>Math.floor\<close> does.\<close>

definition daysBetween :: "int \<Rightarrow> int \<Rightarrow> int" where
  "daysBetween start end' = (end' - start) div (1000 * 60 * 60 * 24)"

definition hoursBetween :: "int \<Rightarrow> int \<Rightarrow> rat" where
  "hoursBetween start end' = of_int (end' - start) / (1000 * 60 * 60)"

subsection \<open>Metrics derivation (data/jira/metrics.ts)\<close>

definition isInProgressChange :: "IssueChangelog \<Rightarrow> bool" where
  "isInProgressChange c \<longleftrightarrow>
     field c = ''status'' \<and> (toValue c = ''In Progress'' \<or> toValue c = ''In Development'')"

definition isDoneChange :: "IssueChangelog \<Rightarrow> bool" where
  "isDoneChange c \<longleftrightarrow>
     field c = ''status'' \<and>
     (toValue c = ''Done'' \<or> toValue c = ''Closed'' \<or> toValue c = ''Resolved'')"

text \<open>\<open>Array.prototype.find\<close> is \<^const>\<open>List.find\<close>: the first element that satisfies
  the predicate, or \<open>undefined\<close>. Both searches start at the head of the changelog.\<close>

definition calculateCycleTime :: "IssueChangelog list \<Rightarrow> int" where
  "calculateCycleTime changelogs =
     (let inProgressChange = List.find isInProgressChange changelogs;
          doneChange = List.find isDoneChange changelogs
      in case (inProgressChange, doneChange) of
           (Some ip, Some dn) \<Rightarrow> daysBetween (timestamp ip) (timestamp dn)
         | _ \<Rightarrow> 0)"

definition calculateLeadTime :: "IssueChangelog list \<Rightarrow> int" where
  "calculateLeadTime changelogs =
     (case changelogs of
        [] \<Rightarrow> 0
      | firstChange # rest \<Rightarrow>
          (case List.find isDoneChange changelogs of
             None \<Rightarrow> 0
           | Some dn \<Rightarrow> daysBetween (timestamp firstChange) (timestamp dn)))"

text \<open>
  The cycle time in the words of the specification: the days between the first
  transition into an in-progress status and the first transition into a done status
  that occurs after it, and 0 when either is absent.
\<close>

definition spec_cycle_time :: "IssueChangelog list \<Rightarrow> int" where
  "spec_cycle_time changelogs =
     (case dropWhile (\<lambda>c. \<not> isInProgressChange c) changelogs of
        [] \<Rightarrow> 0
      | ip # later \<Rightarrow>
          (case List.find isDoneChange later of
             None \<Rightarrow> 0
           | Some dn \<Rightarrow> daysBetween (timestamp ip) (timestamp dn)))"

definition status_change :: "int \<Rightarrow> string \<Rightarrow> string \<Rightarrow> IssueChangelog" where
  "status_change t old new =
     \<lparr>id_cl = ''1'', issueKey = ''DT-1'', timestamp = t, author = ''Dev'',
      authorAccountId = ''u1'', field = ''status'', fromValue = old, toValue = new\<rparr>"

text \<open>An issue closed straight from the backlog on day 0, reopened into progress on day 5
  and closed again on day 10.\<close>

definition reopened_log :: "IssueChangelog list" where
  "reopened_log =
     [status_change 0 ''To Do'' ''Done'',
      status_change 432000000 ''Done'' ''In Progress'',
      status_change 864000000 ''In Progress'' ''Done'']"

subsection \<open>Issues with metrics\<close>

text \<open>
  Of \<open>IssueMetrics\<close> and \<open>IssueWithMetrics\<close> the records keep the fields that the
  functions embedded below read. \<open>created\<close> is declared a \<open>Date\<close> but tested for
  presence by the load analyzer, and \<open>metrics\<close> is tested for presence wherever it is
  read, so both are options here.
\<close>

record IssueMetrics =
  cycleTimeDays :: int
  leadTimeDays :: int

record IssueWithMetrics =
  key :: string
  assignee :: string
  assigneeAccountId :: string
  created :: "int option"
  resolved :: "int option"
  metrics :: "IssueMetrics option"

subsection \<open>Load analyzer: concurrent load (analyzers/load.ts)\<close>

text \<open>\<open>x.resolved ? x.resolved.getTime() : new Date().getTime()\<close>\<close>

definition endOf :: "int \<Rightarrow> IssueWithMetrics \<Rightarrow> int" where
  "endOf now x = (case resolved x of Some r \<Rightarrow> r | None \<Rightarrow> now)"

text \<open>
  The \<open>for\<close> loop over \<open>allIssues\<close>, with the counter \<open>concurrent\<close> as accumulator.
  An entry with the key of the issue itself is skipped. \<open>other.created.getTime()\<close> on
  an entry without a creation date throws.
\<close>

fun countConcurrent ::
  "int \<Rightarrow> string \<Rightarrow> int \<Rightarrow> int \<Rightarrow> IssueWithMetrics list \<Rightarrow> nat \<Rightarrow> error + nat" where
  "countConcurrent now k issueStart issueEnd [] concurrent = Inr concurrent"
| "countConcurrent now k issueStart issueEnd (other # rest) concurrent =
     (if key other = k then countConcurrent now k issueStart issueEnd rest concurrent
      else case created other of
             None \<Rightarrow> Inl TypeError
           | Some otherStart \<Rightarrow>
               (let otherEnd = endOf now other
                in if otherStart \<le> issueEnd \<and> otherEnd \<ge> issueStart
                   then countConcurrent now k issueStart issueEnd rest (concurrent + 1)
                   else countConcurrent now k issueStart issueEnd rest concurrent))"

definition calculateConcurrentLoad ::
  "int \<Rightarrow> IssueWithMetrics \<Rightarrow> IssueWithMetrics list \<Rightarrow> error + nat" where
  "calculateConcurrentLoad now issue allIssues =
     (case created issue of
        None \<Rightarrow> Inr 1
      | Some issueStart \<Rightarrow>
          (case countConcurrent now (key issue) issueStart (endOf now issue) allIssues 0 of
             Inl err \<Rightarrow> Inl err
           | Inr concurrent \<Rightarrow> Inr (max 1 concurrent)))"

text \<open>The overlap test of the loop, as a relation between two issues.\<close>

definition overlaps :: "int \<Rightarrow> IssueWithMetrics \<Rightarrow> IssueWithMetrics \<Rightarrow> bool" where
  "overlaps now x y =
     (case (created x, created y) of
        (Some xs, Some ys) \<Rightarrow> ys \<le> endOf now x \<and> endOf now y \<ge> xs
      | _ \<Rightarrow> False)"

definition mk_issue :: "string \<Rightarrow> int \<Rightarrow> int option \<Rightarrow> IssueWithMetrics" where
  "mk_issue k c r =
     \<lparr>key = k, assignee = ''Dev'', assigneeAccountId = ''u1'', created = Some c,
      resolved = r, metrics = None\<rparr>"

text \<open>Three issues, each open during days 2 to 3.\<close>

definition three_overlapping :: "IssueWithMetrics list" where
  "three_overlapping =
     [mk_issue ''DT-1'' 0 (Some 345600000),
      mk_issue ''DT-2'' 86400000 (Some 432000000),
      mk_issue ''DT-3'' 172800000 (Some 259200000)]"

subsection \<open>Analysis results (models/analysis.ts)\<close>

text \<open>
  Every analysis result carries the subject, a confidence tier and the time of the
  computation; all but the sprint prediction carry the number of data points. The
  fields that hold display text (\<open>description\<close>, \<open>recommendations\<close>, \<open>recoveryPlan\<close>,
  \<open>sprintName\<close>, the \<open>impact\<close> sentence of a what-if scenario) are left out: no
  function embedded here reads them. Element types of collections that the embedded
  functions never look into are type parameters.
\<close>

datatype Confidence = C_high | C_medium | C_low

datatype LoadStatus = L_under | L_optimal | L_over | L_critical

datatype RiskLevel = R_healthy | R_warning | R_high | R_critical

datatype Severity = S_low | S_medium | S_high | S_critical

datatype Rating = Rt_excellent | Rt_good | Rt_neutral | Rt_needs_work

datatype Advice = A_safe | A_risky | A_avoid

record Analysis =
  accountId :: string
  confidence :: Confidence
  lastUpdated :: int

record CountedAnalysis = Analysis +
  dataPoints :: nat

record PeakWindow =
  pw_start :: int
  pw_end :: int
  qualityMultiplier :: rat

record DangerZone =
  dz_start :: int
  dz_end :: int
  revertMultiplier :: rat

record 'd TimingAnalysis = CountedAnalysis +
  peakWindow :: PeakWindow
  dangerZone :: "DangerZone option"
  dayPatterns :: "string \<rightharpoonup> 'd"

record ('m, 'c) StrengthAnalysis = CountedAnalysis +
  ticketTypes :: "string \<rightharpoonup> 'm"
  components :: "string \<rightharpoonup> 'c"

record ('r, 's, 'p) CollaborationAnalysis = CountedAnalysis +
  bestReviewers :: "'r list"
  reviewerStats :: "string \<rightharpoonup> 's"
  pairEffectiveness :: "string \<rightharpoonup> 'p"

record OptimalRange =
  range_min :: nat
  range_max :: nat

record 'l LoadAnalysis = CountedAnalysis +
  optimalRange :: OptimalRange
  loadCurve :: "nat \<rightharpoonup> 'l"
  currentLoad :: nat
  currentStatus :: LoadStatus

record PeriodMetrics =
  period :: string
  issuesCompleted :: nat
  storyPoints :: rat
  avgCycleTime :: rat
  qualityScore :: rat
  defectRate :: rat

record PeriodComparison =
  current :: PeriodMetrics
  previous :: PeriodMetrics
  delta :: "string \<rightharpoonup> rat"

record ('t, 'e) TrendAnalysis = CountedAnalysis +
  velocityTrend :: "'t list"
  qualityTrend :: "'t list"
  skillsEvolution :: "'e list"
  periodComparison :: PeriodComparison

subsection \<open>Confidence tier (utils/calculations.ts) and load status (analyzers/load.ts)\<close>

definition calculateConfidence :: "nat \<Rightarrow> Confidence" where
  "calculateConfidence n = (if n \<ge> 30 then C_high else if n \<ge> 10 then C_medium else C_low)"

text \<open>
  Double precision. \<open>pow2 e\<close> is 2 to the power \<open>e\<close>; \<open>exponent_of a\<close> is, for a
  positive \<open>a\<close>, the \<open>e\<close> with \<open>pow2 e \<le> a < pow2 (e + 1)\<close>; \<open>round_even\<close> rounds to
  the nearest integer and a tie to the even one; \<open>round_double x\<close> is the nearest number
  with a significand of 53 bits, the value an operation on doubles returns for the exact
  result \<open>x\<close>. Overflow and subnormal numbers, beyond every mean and ratio of day counts,
  are not modelled.
\<close>

definition pow2 :: "int \<Rightarrow> rat" where
  "pow2 e = (if e \<ge> 0 then 2 ^ nat e else 1 / 2 ^ nat (- e))"

definition exponent_of :: "rat \<Rightarrow> int" where
  "exponent_of a =
     (if a \<ge> 1 then bitlen \<lfloor>a\<rfloor> - 1
      else (let k = bitlen \<lfloor>1 / a\<rfloor> - 1 in if a = pow2 (- k) then - k else - k - 1))"

definition round_even :: "rat \<Rightarrow> int" where
  "round_even x =
     (let f = \<lfloor>x\<rfloor>; r = x - of_int f
      in if r < 1 / 2 then f else if r > 1 / 2 then f + 1 else if even f then f else f + 1)"

definition round_double :: "rat \<Rightarrow> rat" where
  "round_double x =
     (if x = 0 then 0
      else (let a = \<bar>x\<bar>; ulp = pow2 (exponent_of a - 52)
            in sgn x * of_int (round_even (a / ulp)) * ulp))"

text \<open>\<open>a + b\<close> and \<open>a / b\<close> on doubles. A division by 0 gives an infinity or \<open>NaN\<close> in
  the source; the divisors below are the length of a list that is not empty and a mean
  that is positive for every collaborator the analyzer records.\<close>

definition fl_add :: "rat \<Rightarrow> rat \<Rightarrow> rat" where
  "fl_add a b = round_double (a + b)"

definition fl_div :: "rat \<Rightarrow> rat \<Rightarrow> rat" where
  "fl_div a b = round_double (a / b)"

text \<open>\<open>numbers.reduce((sum, n) => sum + n, 0) / numbers.length\<close>, and 0 for no numbers.\<close>

definition average :: "rat list \<Rightarrow> rat" where
  "average numbers =
     (if length numbers = 0 then 0
      else fl_div (foldl (\<lambda>sum n. fl_add sum n) 0 numbers) (of_nat (length numbers)))"

definition findOptimalLoadRange :: OptimalRange where
  "findOptimalLoadRange = \<lparr>range_min = 5, range_max = 9\<rparr>"

text \<open>The range argument is not read: the zones are fixed.\<close>

definition determineLoadStatus :: "nat \<Rightarrow> OptimalRange \<Rightarrow> LoadStatus" where
  "determineLoadStatus load rng =
     (if load < 5 then L_under
      else if load \<ge> 5 \<and> load \<le> 9 then L_optimal
      else if load \<ge> 10 \<and> load \<le> 12 then L_over
      else L_critical)"

subsection \<open>Analyzer entry points\<close>

text \<open>
  Each entry point reads the cache, then fetches the history (\<open>issues\<close> is what
  \<open>getUserIssuesWithMetrics\<close> answers when it is called), returns the response for
  insufficient data below its minimum sample, and otherwise analyses, stores and returns.
  The helper functions that compute the analysis proper and are not the subject of a
  property below enter as one parameter, \<open>helpers\<close>; the envelope is built as in the
  source. A failed cache write makes the entry point throw.
\<close>

definition cacheKeyOf :: "Namespace \<Rightarrow> string \<Rightarrow> CacheKey" where
  "cacheKeyOf ns a = \<lparr>namespace = ns, CacheKey.accountId = a, suffix = None\<rparr>"

definition createInsufficientDataResponse_timing :: "string \<Rightarrow> nat \<Rightarrow> int \<Rightarrow> 'd TimingAnalysis" where
  "createInsufficientDataResponse_timing a n now =
     \<lparr>accountId = a, confidence = C_low, lastUpdated = now, dataPoints = n,
      peakWindow = \<lparr>pw_start = 10, pw_end = 12, qualityMultiplier = 1\<rparr>,
      dangerZone = None, dayPatterns = Map.empty\<rparr>"

definition analyzeTimingPatterns ::
  "string \<Rightarrow> int \<Rightarrow> IssueWithMetrics list
   \<Rightarrow> (IssueWithMetrics list \<Rightarrow> PeakWindow \<times> DangerZone option \<times> (string \<rightharpoonup> 'd))
   \<Rightarrow> 'd TimingAnalysis Storage \<Rightarrow> error + 'd TimingAnalysis \<times> 'd TimingAnalysis Storage" where
  "analyzeTimingPatterns a now issues helpers st =
     (case getCached (cacheKeyOf NS_timing a) 24 now st of
        (Some cached, st1) \<Rightarrow> Inr (cached, st1)
      | (None, st1) \<Rightarrow>
          if length issues < 10
          then Inr (createInsufficientDataResponse_timing a (length issues) now, st1)
          else
            (case helpers issues of
               (peak, danger, days) \<Rightarrow>
                 (let analysis =
                        \<lparr>accountId = a, confidence = calculateConfidence (length issues),
                         lastUpdated = now, dataPoints = length issues,
                         peakWindow = peak, dangerZone = danger, dayPatterns = days\<rparr>
                  in case setCache (cacheKeyOf NS_timing a) analysis 24 now st1 of
                       Inl err \<Rightarrow> Inl err
                     | Inr st2 \<Rightarrow> Inr (analysis, st2))))"

definition createInsufficientDataResponse_strengths ::
  "string \<Rightarrow> nat \<Rightarrow> int \<Rightarrow> ('m, 'c) StrengthAnalysis" where
  "createInsufficientDataResponse_strengths a n now =
     \<lparr>accountId = a, confidence = C_low, lastUpdated = now, dataPoints = n,
      ticketTypes = Map.empty, components = Map.empty\<rparr>"

definition analyzeStrengthPatterns ::
  "string \<Rightarrow> int \<Rightarrow> IssueWithMetrics list
   \<Rightarrow> (IssueWithMetrics list \<Rightarrow> (string \<rightharpoonup> 'm) \<times> (string \<rightharpoonup> 'c))
   \<Rightarrow> ('m, 'c) StrengthAnalysis Storage
   \<Rightarrow> error + ('m, 'c) StrengthAnalysis \<times> ('m, 'c) StrengthAnalysis Storage" where
  "analyzeStrengthPatterns a now issues helpers st =
     (case getCached (cacheKeyOf NS_strengths a) 24 now st of
        (Some cached, st1) \<Rightarrow> Inr (cached, st1)
      | (None, st1) \<Rightarrow>
          if length issues < 10
          then Inr (createInsufficientDataResponse_strengths a (length issues) now, st1)
          else
            (case helpers issues of
               (types, comps) \<Rightarrow>
                 (let analysis =
                        \<lparr>accountId = a, confidence = calculateConfidence (length issues),
                         lastUpdated = now, dataPoints = length issues,
                         ticketTypes = types, components = comps\<rparr>
                  in case setCache (cacheKeyOf NS_strengths a) analysis 24 now st1 of
                       Inl err \<Rightarrow> Inl err
                     | Inr st2 \<Rightarrow> Inr (analysis, st2))))"

definition createInsufficientDataResponse_collaboration ::
  "string \<Rightarrow> nat \<Rightarrow> int \<Rightarrow> ('r, 's, 'p) CollaborationAnalysis" where
  "createInsufficientDataResponse_collaboration a n now =
     \<lparr>accountId = a, confidence = C_low, lastUpdated = now, dataPoints = n,
      bestReviewers = [], reviewerStats = Map.empty, pairEffectiveness = Map.empty\<rparr>"

text \<open>The collaboration analyzer has no helper: past the gate it returns empty statistics
  with low confidence.\<close>

definition analyzeCollaborationPatterns ::
  "string \<Rightarrow> int \<Rightarrow> IssueWithMetrics list
   \<Rightarrow> ('r, 's, 'p) CollaborationAnalysis Storage
   \<Rightarrow> error + ('r, 's, 'p) CollaborationAnalysis \<times> ('r, 's, 'p) CollaborationAnalysis Storage" where
  "analyzeCollaborationPatterns a now userIssues st =
     (case getCached (cacheKeyOf NS_collaboration a) 24 now st of
        (Some cached, st1) \<Rightarrow> Inr (cached, st1)
      | (None, st1) \<Rightarrow>
          if length userIssues < 10
          then Inr (createInsufficientDataResponse_collaboration a (length userIssues) now, st1)
          else
            (let analysis =
                   \<lparr>accountId = a, confidence = C_low,
                    lastUpdated = now, dataPoints = length userIssues,
                    bestReviewers = [], reviewerStats = Map.empty,
                    pairEffectiveness = Map.empty\<rparr>
             in case setCache (cacheKeyOf NS_collaboration a) analysis 24 now st1 of
                  Inl err \<Rightarrow> Inl err
                | Inr st2 \<Rightarrow> Inr (analysis, st2)))"

definition createInsufficientDataResponse_trends ::
  "string \<Rightarrow> nat \<Rightarrow> int \<Rightarrow> ('t, 'e) TrendAnalysis" where
  "createInsufficientDataResponse_trends a n now =
     \<lparr>accountId = a, confidence = C_low, lastUpdated = now, dataPoints = n,
      velocityTrend = [], qualityTrend = [], skillsEvolution = [],
      periodComparison =
        \<lparr>current = \<lparr>period = ''Current'', issuesCompleted = 0, storyPoints = 0,
                     avgCycleTime = 0, qualityScore = 0, defectRate = 0\<rparr>,
         previous = \<lparr>period = ''Previous'', issuesCompleted = 0, storyPoints = 0,
                      avgCycleTime = 0, qualityScore = 0, defectRate = 0\<rparr>,
         delta = Map.empty\<rparr>\<rparr>"

definition analyzeTrends ::
  "string \<Rightarrow> int \<Rightarrow> IssueWithMetrics list
   \<Rightarrow> (IssueWithMetrics list \<Rightarrow> 't list \<times> 't list \<times> 'e list \<times> PeriodComparison)
   \<Rightarrow> ('t, 'e) TrendAnalysis Storage
   \<Rightarrow> error + ('t, 'e) TrendAnalysis \<times> ('t, 'e) TrendAnalysis Storage" where
  "analyzeTrends a now userIssues helpers st =
     (case getCached (cacheKeyOf NS_trends a) 24 now st of
        (Some cached, st1) \<Rightarrow> Inr (cached, st1)
      | (None, st1) \<Rightarrow>
          if length userIssues < 10
          then Inr (createInsufficientDataResponse_trends a (length userIssues) now, st1)
          else
            (case helpers userIssues of
               (velocity, quality, skills, comparison) \<Rightarrow>
                 (let analysis =
                        \<lparr>accountId = a, confidence = calculateConfidence (length userIssues),
                         lastUpdated = now, dataPoints = length userIssues,
                         velocityTrend = velocity, qualityTrend = quality,
                         skillsEvolution = skills, periodComparison = comparison\<rparr>
                  in case setCache (cacheKeyOf NS_trends a) analysis 24 now st1 of
                       Inl err \<Rightarrow> Inl err
                     | Inr st2 \<Rightarrow> Inr (analysis, st2))))"

subsection \<open>Load analyzer: entry point (analyzers/load.ts)\<close>

definition createInsufficientDataResponse_load :: "string \<Rightarrow> nat \<Rightarrow> int \<Rightarrow> 'l LoadAnalysis" where
  "createInsufficientDataResponse_load a n now =
     \<lparr>accountId = a, confidence = C_low, lastUpdated = now, dataPoints = n,
      optimalRange = \<lparr>range_min = 5, range_max = 9\<rparr>, loadCurve = Map.empty,
      currentLoad = 0, currentStatus = L_optimal\<rparr>"

text \<open>\<open>issues.map(issue => ({...issue, concurrentLoad: calculateConcurrentLoad(issue, issues)}))\<close>;
  the first exception ends the map.\<close>

fun withConcurrentLoad ::
  "int \<Rightarrow> IssueWithMetrics list \<Rightarrow> IssueWithMetrics list \<Rightarrow> error + (IssueWithMetrics \<times> nat) list" where
  "withConcurrentLoad now allIssues [] = Inr []"
| "withConcurrentLoad now allIssues (issue # rest) =
     (case calculateConcurrentLoad now issue allIssues of
        Inl err \<Rightarrow> Inl err
      | Inr load \<Rightarrow>
          (case withConcurrentLoad now allIssues rest of
             Inl err \<Rightarrow> Inl err
           | Inr loaded \<Rightarrow> Inr ((issue, load) # loaded)))"

text \<open>
  \<open>activeCount\<close> is what \<open>countActiveTickets\<close> answers; \<open>buildLoadCurve\<close> is the helper.
  On a cache hit the current load and its status are refreshed in the cached record.
\<close>

definition analyzeLoadPatterns ::
  "string \<Rightarrow> int \<Rightarrow> IssueWithMetrics list \<Rightarrow> nat
   \<Rightarrow> ((IssueWithMetrics \<times> nat) list \<Rightarrow> (nat \<rightharpoonup> 'l))
   \<Rightarrow> 'l LoadAnalysis Storage \<Rightarrow> error + 'l LoadAnalysis \<times> 'l LoadAnalysis Storage" where
  "analyzeLoadPatterns a now issues activeCount buildLoadCurve st =
     (case getCached (cacheKeyOf NS_load a) 24 now st of
        (Some cached, st1) \<Rightarrow>
          Inr (cached\<lparr>currentLoad := activeCount,
                      currentStatus := determineLoadStatus activeCount (optimalRange cached)\<rparr>, st1)
      | (None, st1) \<Rightarrow>
          if length issues < 10
          then Inr (createInsufficientDataResponse_load a (length issues) now, st1)
          else
            (case withConcurrentLoad now issues issues of
               Inl err \<Rightarrow> Inl err
             | Inr issuesWithLoad \<Rightarrow>
                 (let analysis =
                        \<lparr>accountId = a, confidence = calculateConfidence (length issues),
                         lastUpdated = now, dataPoints = length issues,
                         optimalRange = findOptimalLoadRange,
                         loadCurve = buildLoadCurve issuesWithLoad,
                         currentLoad = activeCount,
                         currentStatus = determineLoadStatus activeCount findOptimalLoadRange\<rparr>
                  in case setCache (cacheKeyOf NS_load a) analysis 24 now st1 of
                       Inl err \<Rightarrow> Inl err
                     | Inr st2 \<Rightarrow> Inr (analysis, st2))))"

subsection \<open>Burnout analyzer (analyzers/burnout.ts)\<close>

datatype FactorKind =
  sustained_overload | danger_hours | declining_velocity | long_cycles | no_breaks

record BurnoutRiskFactor =
  factor :: FactorKind
  severity :: Severity
  weeksAffected :: nat
  impact :: int

record Trends =
  weeklyOverload :: "rat list"
  dangerHourWork :: "rat list"
  velocityTrend :: "nat list"

record BurnoutAnalysis = CountedAnalysis +
  burnoutScore :: int
  riskLevel :: RiskLevel
  riskFactors :: "BurnoutRiskFactor list"
  trends :: Trends

definition msPerDay :: int where
  "msPerDay = 1000 * 60 * 60 * 24"

text \<open>
  Week \<open>i\<close> of the loop ends \<open>7 i\<close> days before \<open>now\<close> and starts 7 days earlier
  (\<open>setDate\<close> moves by calendar days; a day is taken as 24 hours).
\<close>

definition inWeek :: "int \<Rightarrow> nat \<Rightarrow> int option \<Rightarrow> bool" where
  "inWeek now i d =
     (let weekEnd = now - int i * 7 * msPerDay;
          weekStart = weekEnd - 7 * msPerDay
      in case d of None \<Rightarrow> False | Some t \<Rightarrow> t \<ge> weekStart \<and> t < weekEnd)"

definition completedInWeek :: "int \<Rightarrow> IssueWithMetrics list \<Rightarrow> nat \<Rightarrow> nat" where
  "completedInWeek now issues i = length (filter (\<lambda>issue. inWeek now i (resolved issue)) issues)"

definition createdInWeek :: "int \<Rightarrow> IssueWithMetrics list \<Rightarrow> nat \<Rightarrow> nat" where
  "createdInWeek now issues i = length (filter (\<lambda>issue. inWeek now i (created issue)) issues)"

definition overloadEstimate :: "int \<Rightarrow> IssueWithMetrics list \<Rightarrow> nat \<Rightarrow> rat" where
  "overloadEstimate now issues i =
     (let netChange = int (createdInWeek now issues i) - int (completedInWeek now issues i)
      in if netChange > 0 then min 100 ((of_int netChange / 9) * 100) else 0)"

text \<open>Each of the 8 rounds puts its value at the front (\<open>unshift\<close>), so the oldest week
  comes first.\<close>

definition analyzeWeeklyPatterns :: "IssueWithMetrics list \<Rightarrow> int \<Rightarrow> Trends" where
  "analyzeWeeklyPatterns issues now =
     \<lparr>weeklyOverload = map (overloadEstimate now issues) (rev [0..<8]),
      dangerHourWork = map (\<lambda>i. 0) (rev [0..<8]),
      velocityTrend = map (completedInWeek now issues) (rev [0..<8])\<rparr>"

definition velocityMean :: "nat list \<Rightarrow> rat" where
  "velocityMean vs = of_nat (sum_list vs) / of_nat (length vs)"

text \<open>
  The five factors, pushed in the order of the source. \<open>slice(-4)\<close> keeps the last four
  entries and \<open>slice(0, 4)\<close> the first four. The mean of an empty slice is \<open>NaN\<close> in the
  source and 0 here; both fail the test \<open>olderAvg > 0\<close>.
\<close>

definition factor1 :: "Trends \<Rightarrow> BurnoutRiskFactor list" where
  "factor1 weeklyData =
     (let weeksOverloaded = length (filter (\<lambda>w. w > 50) (weeklyOverload weeklyData))
      in if weeksOverloaded \<ge> 2 then
           [if weeksOverloaded \<ge> 6 then
              \<lparr>factor = sustained_overload, severity = S_critical,
               weeksAffected = weeksOverloaded, impact = 40\<rparr>
            else if weeksOverloaded \<ge> 4 then
              \<lparr>factor = sustained_overload, severity = S_high,
               weeksAffected = weeksOverloaded, impact = 30\<rparr>
            else if weeksOverloaded \<ge> 2 then
              \<lparr>factor = sustained_overload, severity = S_medium,
               weeksAffected = weeksOverloaded, impact = 20\<rparr>
            else
              \<lparr>factor = sustained_overload, severity = S_low,
               weeksAffected = weeksOverloaded, impact = 0\<rparr>]
         else [])"

definition factor2 :: "LoadStatus \<Rightarrow> nat \<Rightarrow> BurnoutRiskFactor list" where
  "factor2 status load =
     (if status = L_critical \<or> status = L_over then
        [\<lparr>factor = sustained_overload,
          severity = (if status = L_critical then S_critical else S_high),
          weeksAffected = 1,
          impact = (if status = L_critical then 25 else 15)\<rparr>]
      else if load \<ge> 7 then
        [\<lparr>factor = sustained_overload, severity = S_low, weeksAffected = 1, impact = 5\<rparr>]
      else [])"

definition factor3 :: "Trends \<Rightarrow> BurnoutRiskFactor list" where
  "factor3 weeklyData =
     (let recentVelocity = drop (length (velocityTrend weeklyData) - 4) (velocityTrend weeklyData);
          olderVelocity = take 4 (velocityTrend weeklyData);
          recentAvg = velocityMean recentVelocity;
          olderAvg = velocityMean olderVelocity
      in if olderAvg > 0 then
           (let velocityChange = ((recentAvg - olderAvg) / olderAvg) * 100
            in if velocityChange < - 20 then
                 [if velocityChange < - 40 then
                    \<lparr>factor = declining_velocity, severity = S_critical,
                     weeksAffected = 4, impact = 30\<rparr>
                  else if velocityChange < - 30 then
                    \<lparr>factor = declining_velocity, severity = S_high,
                     weeksAffected = 4, impact = 25\<rparr>
                  else
                    \<lparr>factor = declining_velocity, severity = S_medium,
                     weeksAffected = 4, impact = 15\<rparr>]
               else [])
         else [])"

definition factor4 :: "DangerZone option \<Rightarrow> int \<Rightarrow> BurnoutRiskFactor list" where
  "factor4 danger currentHour =
     (case danger of
        None \<Rightarrow> []
      | Some dz \<Rightarrow>
          if currentHour \<ge> dz_start dz \<and> currentHour \<le> dz_end dz
          then [\<lparr>factor = danger_hours, severity = S_medium, weeksAffected = 1, impact = 10\<rparr>]
          else [])"

definition factor5 :: "Trends \<Rightarrow> BurnoutRiskFactor list" where
  "factor5 weeklyData =
     (let highVelocityWeeks = length (filter (\<lambda>v. v \<ge> 8) (velocityTrend weeklyData))
      in if highVelocityWeeks \<ge> 3 then
           [\<lparr>factor = sustained_overload, severity = S_medium,
             weeksAffected = highVelocityWeeks, impact = 15\<rparr>]
         else [])"

definition detectRiskFactors ::
  "Trends \<Rightarrow> 'l LoadAnalysis \<Rightarrow> 'd TimingAnalysis \<Rightarrow> int \<Rightarrow> BurnoutRiskFactor list" where
  "detectRiskFactors weeklyData loadAnalysis timingAnalysis currentHour =
     factor1 weeklyData
     @ factor2 (currentStatus loadAnalysis) (currentLoad loadAnalysis)
     @ factor3 weeklyData
     @ factor4 (dangerZone timingAnalysis) currentHour
     @ factor5 weeklyData"

definition calculateBurnoutScore :: "BurnoutRiskFactor list \<Rightarrow> int" where
  "calculateBurnoutScore factors =
     (if factors = [] then 0
      else min 100 (foldl (\<lambda>sum f. sum + impact f) 0 factors))"

definition determinRiskLevel :: "int \<Rightarrow> RiskLevel" where
  "determinRiskLevel score =
     (if score \<ge> 70 then R_critical
      else if score \<ge> 50 then R_high
      else if score \<ge> 30 then R_warning
      else R_healthy)"

definition createInsufficientDataResponse_burnout :: "string \<Rightarrow> nat \<Rightarrow> int \<Rightarrow> BurnoutAnalysis" where
  "createInsufficientDataResponse_burnout a n now =
     \<lparr>accountId = a, confidence = C_low, lastUpdated = now, dataPoints = n,
      burnoutScore = 0, riskLevel = R_healthy, riskFactors = [],
      trends = \<lparr>weeklyOverload = [], dangerHourWork = [], velocityTrend = []\<rparr>\<rparr>"

text \<open>The factor that is pushed when \<open>detectRiskFactors\<close> found none
  (\<open>if (riskFactors.length === 0) riskFactors.push(...)\<close>).\<close>

definition baselineFactor :: BurnoutRiskFactor where
  "baselineFactor =
     \<lparr>factor = sustained_overload, severity = S_low, weeksAffected = 0, impact = 5\<rparr>"

definition withBaseline :: "BurnoutRiskFactor list \<Rightarrow> BurnoutRiskFactor list" where
  "withBaseline detected = (if length detected = 0 then detected @ [baselineFactor] else detected)"

text \<open>The four levels in the order of their thresholds.\<close>

definition level_rank :: "RiskLevel \<Rightarrow> nat" where
  "level_rank l = (case l of R_healthy \<Rightarrow> 0 | R_warning \<Rightarrow> 1 | R_high \<Rightarrow> 2 | R_critical \<Rightarrow> 3)"

text \<open>
  The entry point reads the cache and drops what it read: the early return on a hit is
  commented out in the source (\<open>TEMPORARILY DISABLE CACHE FOR DEBUGGING\<close>).
  \<open>loadAnalysis\<close> and \<open>timingAnalysis\<close> are what the two other analyzers answer, and
  \<open>currentHour\<close> is \<open>new Date().getHours()\<close>.
\<close>

definition analyzeBurnoutRisk ::
  "string \<Rightarrow> int \<Rightarrow> int \<Rightarrow> IssueWithMetrics list \<Rightarrow> 'l LoadAnalysis \<Rightarrow> 'd TimingAnalysis
   \<Rightarrow> BurnoutAnalysis Storage \<Rightarrow> error + BurnoutAnalysis \<times> BurnoutAnalysis Storage" where
  "analyzeBurnoutRisk a now currentHour issues loadAnalysis timingAnalysis st =
     (case getCached (cacheKeyOf NS_burnout a) 6 now st of
        (cached, st1) \<Rightarrow>
          if length issues < 5
          then Inr (createInsufficientDataResponse_burnout a (length issues) now, st1)
          else
            (let weeklyData = analyzeWeeklyPatterns issues now;
                 riskFactors' =
                   withBaseline
                     (detectRiskFactors weeklyData loadAnalysis timingAnalysis currentHour);
                 burnoutScore' = calculateBurnoutScore riskFactors';
                 riskLevel' = determinRiskLevel burnoutScore';
                 analysis =
                   \<lparr>accountId = a,
                    confidence = (if length issues > 30 then C_high
                                  else if length issues > 15 then C_medium else C_low),
                    lastUpdated = now, dataPoints = length issues,
                    burnoutScore = burnoutScore', riskLevel = riskLevel',
                    riskFactors = riskFactors', trends = weeklyData\<rparr>
             in case setCache (cacheKeyOf NS_burnout a) analysis 6 now st1 of
                  Inl err \<Rightarrow> Inl err
                | Inr st2 \<Rightarrow> Inr (analysis, st2)))"

subsection \<open>Pit crew analyzer (analyzers/pitCrew.ts)\<close>

text \<open>The value kept per collaborator in the \<open>Map\<close> of \<open>extractCollaborationData\<close>;
  the map itself is an association list in insertion order.\<close>

record CollaborationData =
  cd_accountId :: string
  cd_displayName :: string
  sharedIssues :: "string list"
  cycleTimes :: "int list"

record ChemistryScore =
  teammate :: string
  displayName :: string
  score :: int
  speedMultiplier :: rat
  collaborations :: nat
  rating :: Rating

record ('m, 'b) TeamMetrics =
  avgCollaborationCycleTime :: rat
  fastestUnblocker :: "'m option"
  bestPair :: "'b option"
  totalCollaborations :: nat

record ('m, 'e, 'b) PitCrewAnalysis = CountedAnalysis +
  teammates :: "'m list"
  collaborationNetwork :: "'e list"
  chemistryScores :: "(string \<times> ChemistryScore) list"
  teamMetrics :: "('m, 'b) TeamMetrics"

text \<open>The two pushes on the entry of one collaborator.\<close>

definition addShared :: "IssueWithMetrics \<Rightarrow> CollaborationData \<Rightarrow> CollaborationData" where
  "addShared issue d =
     (let d1 = d\<lparr>sharedIssues := sharedIssues d @ [key issue]\<rparr>
      in case metrics issue of
           None \<Rightarrow> d1
         | Some m \<Rightarrow>
             if cycleTimeDays m > 0
             then d1\<lparr>cycleTimes := cycleTimes d1 @ [cycleTimeDays m]\<rparr>
             else d1)"

text \<open>\<open>has\<close>, \<open>set\<close> of a fresh entry when the key is new, \<open>get\<close> and the pushes.\<close>

fun recordShared ::
  "string \<Rightarrow> IssueWithMetrics \<Rightarrow> (string \<times> CollaborationData) list
   \<Rightarrow> (string \<times> CollaborationData) list" where
  "recordShared k issue [] =
     [(k, addShared issue \<lparr>cd_accountId = k, cd_displayName = assignee issue,
                           sharedIssues = [], cycleTimes = []\<rparr>)]"
| "recordShared k issue ((k', d) # rest) =
     (if k' = k then (k', addShared issue d) # rest
      else (k', d) # recordShared k issue rest)"

definition extractCollaborationData ::
  "IssueWithMetrics list \<Rightarrow> string \<Rightarrow> (string \<times> CollaborationData) list" where
  "extractCollaborationData issues currentUserId =
     foldl (\<lambda>collaborations issue.
              if assigneeAccountId issue \<noteq> [] \<and> assigneeAccountId issue \<noteq> currentUserId
              then recordShared (assigneeAccountId issue) issue collaborations
              else collaborations)
           [] issues"

text \<open>\<open>.filter(i => i.metrics && i.metrics.cycleTimeDays > 0).map(i => i.metrics.cycleTimeDays)\<close>\<close>

definition positiveCycleTimes :: "IssueWithMetrics list \<Rightarrow> rat list" where
  "positiveCycleTimes issues =
     List.map_filter
       (\<lambda>i. case metrics i of
               None \<Rightarrow> None
             | Some m \<Rightarrow> if cycleTimeDays m > 0 then Some (of_int (cycleTimeDays m)) else None)
       issues"

definition soloAvgOf :: "IssueWithMetrics list \<Rightarrow> rat" where
  "soloAvgOf allIssues =
     (let soloCycleTimes = positiveCycleTimes allIssues
      in if length soloCycleTimes > 0 then average soloCycleTimes else 10)"

text \<open>
  The body of the \<open>forEach\<close> over the collaborators, in two steps: the speed multiplier
  of a collaborator, then the score, the rating and the record. The divisor is a mean of
  positive cycle times or the positive \<open>soloAvg\<close> for every collaborator that
  \<open>extractCollaborationData\<close> records. The literals \<open>1.2\<close> and \<open>0.8\<close> are the doubles
  nearest to them.
\<close>

definition speedMultiplierOf :: "rat \<Rightarrow> CollaborationData \<Rightarrow> rat" where
  "speedMultiplierOf soloAvg d =
     (let collaborationAvg =
            (if length (cycleTimes d) > 0 then average (map of_int (cycleTimes d)) else soloAvg)
      in if soloAvg > 0 then fl_div soloAvg collaborationAvg else 1)"

definition chemistryOf :: "rat \<Rightarrow> string \<Rightarrow> CollaborationData \<Rightarrow> ChemistryScore" where
  "chemistryOf soloAvg a d =
     (let speed = speedMultiplierOf soloAvg d;
          score0 = (50 :: int);
          score1 = (if speed > round_double (12 / 10) then score0 + 30
                    else if speed > 1 then score0 + 15
                    else if speed < round_double (8 / 10) then score0 - 20
                    else score0);
          score2 = (if length (sharedIssues d) > 10 then score1 + 20
                    else if length (sharedIssues d) > 5 then score1 + 10
                    else score1);
          score3 = max 0 (min 100 score2)
      in \<lparr>teammate = a,
          displayName = (if cd_displayName d = [] then ''Unknown'' else cd_displayName d),
          score = score3,
          speedMultiplier = speed,
          collaborations = length (sharedIssues d),
          rating = (if score3 \<ge> 80 then Rt_excellent
                    else if score3 \<ge> 60 then Rt_good
                    else if score3 \<ge> 40 then Rt_neutral
                    else Rt_needs_work)\<rparr>)"

text \<open>
  The chemistry score in the words of the specification: start at 50; add 30 if the
  multiplier exceeds 1.2, else 15 if it exceeds 1.0, else subtract 20 if it is below 0.8;
  add 20 for more than 10 shared items, else 10 for more than 5; clamp to 0..100. The
  thresholds 1.2 and 0.8 are doubles, as the multiplier is.
\<close>

definition spec_chemistry_score :: "rat \<Rightarrow> nat \<Rightarrow> int" where
  "spec_chemistry_score multiplier shared =
     max 0 (min 100
       (50
        + (if multiplier > round_double (12 / 10) then 30
           else if multiplier > 1 then 15
           else if multiplier < round_double (8 / 10) then - 20 else 0)
        + (if shared > 10 then 20 else if shared > 5 then 10 else 0)))"

definition calculateChemistryScores ::
  "(string \<times> CollaborationData) list \<Rightarrow> IssueWithMetrics list \<Rightarrow> (string \<times> ChemistryScore) list" where
  "calculateChemistryScores collaborationData allIssues =
     (let soloAvg = soloAvgOf allIssues
      in map (\<lambda>(a, d). (a, chemistryOf soloAvg a d)) collaborationData)"

definition createInsufficientDataResponse_pitcrew ::
  "string \<Rightarrow> nat \<Rightarrow> int \<Rightarrow> ('m, 'e, 'b) PitCrewAnalysis" where
  "createInsufficientDataResponse_pitcrew a n now =
     \<lparr>accountId = a, confidence = C_low, lastUpdated = now, dataPoints = n,
      teammates = [], collaborationNetwork = [], chemistryScores = [],
      teamMetrics = \<lparr>avgCollaborationCycleTime = 0, fastestUnblocker = None,
                     bestPair = None, totalCollaborations = 0\<rparr>\<rparr>"

text \<open>\<open>helpers\<close> stands for \<open>buildTeammateProfiles\<close>, \<open>buildCollaborationNetwork\<close> and
  \<open>calculateTeamMetrics\<close>.\<close>

definition analyzePitCrewPatterns ::
  "string \<Rightarrow> int \<Rightarrow> IssueWithMetrics list
   \<Rightarrow> ((string \<times> CollaborationData) list \<Rightarrow> (string \<times> ChemistryScore) list
       \<Rightarrow> 'm list \<times> 'e list \<times> ('m, 'b) TeamMetrics)
   \<Rightarrow> ('m, 'e, 'b) PitCrewAnalysis Storage
   \<Rightarrow> error + ('m, 'e, 'b) PitCrewAnalysis \<times> ('m, 'e, 'b) PitCrewAnalysis Storage" where
  "analyzePitCrewPatterns a now userIssues helpers st =
     (case getCached (cacheKeyOf NS_pitcrew a) 24 now st of
        (Some cached, st1) \<Rightarrow> Inr (cached, st1)
      | (None, st1) \<Rightarrow>
          if length userIssues < 10
          then Inr (createInsufficientDataResponse_pitcrew a (length userIssues) now, st1)
          else
            (let collaborationData = extractCollaborationData userIssues a;
                 chemistry = calculateChemistryScores collaborationData userIssues
             in case helpers collaborationData chemistry of
                  (mates, network, metrics') \<Rightarrow>
                    (let analysis =
                           \<lparr>accountId = a,
                            confidence = (if length userIssues > 50 then C_high
                                          else if length userIssues > 25 then C_medium
                                          else C_low),
                            lastUpdated = now, dataPoints = length userIssues,
                            teammates = mates, collaborationNetwork = network,
                            chemistryScores = chemistry, teamMetrics = metrics'\<rparr>
                     in case setCache (cacheKeyOf NS_pitcrew a) analysis 24 now st1 of
                          Inl err \<Rightarrow> Inl err
                        | Inr st2 \<Rightarrow> Inr (analysis, st2))))"

subsection \<open>Sprint predictor (analyzers/predictions.ts)\<close>

record Interval =
  low :: "nat option"
  high :: "nat option"

record MonteCarloResult =
  completionProbability :: rat
  expectedCompleted :: int
  confidenceInterval :: Interval

text \<open>
  \<open>historicalCycleTimes[Math.floor(Math.random() * historicalCycleTimes.length)]\<close>, with
  the value of \<open>Math.random()\<close> as argument \<open>r\<close>. An index outside the array reads
  \<open>undefined\<close>, here \<open>None\<close>.
\<close>

definition sampleCycleTime :: "rat list \<Rightarrow> rat \<Rightarrow> rat option" where
  "sampleCycleTime historicalCycleTimes r =
     (let idx = \<lfloor>r * of_nat (length historicalCycleTimes)\<rfloor>
      in if 0 \<le> idx \<and> idx < int (length historicalCycleTimes)
         then Some (historicalCycleTimes ! nat idx) else None)"

text \<open>
  The inner loop of one trial; \<open>rnd ticket\<close> is the random number drawn for that ticket.
  Adding \<open>undefined\<close> makes \<open>daysUsed\<close> \<open>NaN\<close>, the comparison fails and the loop breaks.
\<close>

function simulateTickets ::
  "rat list \<Rightarrow> rat \<Rightarrow> (nat \<Rightarrow> rat) \<Rightarrow> nat \<Rightarrow> nat \<Rightarrow> rat \<Rightarrow> nat \<Rightarrow> nat" where
  "simulateTickets hist daysAvailable rnd ticketCount ticket daysUsed completed =
     (if ticket < ticketCount then
        (case sampleCycleTime hist (rnd ticket) of
           None \<Rightarrow> completed
         | Some randomCycleTime \<Rightarrow>
             if daysUsed + randomCycleTime \<le> daysAvailable
             then simulateTickets hist daysAvailable rnd ticketCount (ticket + 1)
                    (daysUsed + randomCycleTime) (completed + 1)
             else completed)
      else completed)"
  by pat_completeness auto
termination
  by (relation "measure (\<lambda>(hist, daysAvailable, rnd, ticketCount, ticket, daysUsed, completed).
                           ticketCount - ticket)") auto

declare simulateTickets.simps [simp del]

text \<open>\<open>results\<close> after the outer loop: one entry per iteration, in order. \<open>rnd i ticket\<close> is
  the number drawn in iteration \<open>i\<close> for ticket \<open>ticket\<close>.\<close>

definition simulationResults ::
  "nat \<Rightarrow> rat list \<Rightarrow> rat \<Rightarrow> nat \<Rightarrow> (nat \<Rightarrow> nat \<Rightarrow> rat) \<Rightarrow> nat list" where
  "simulationResults ticketCount hist daysAvailable iterations rnd =
     map (\<lambda>i. simulateTickets hist daysAvailable (rnd i) ticketCount 0 0 0) [0..<iterations]"

definition at_index :: "'a list \<Rightarrow> nat \<Rightarrow> 'a option" where
  "at_index xs i = (if i < length xs then Some (xs ! i) else None)"

text \<open>\<open>Math.round\<close> rounds halves up; \<open>Math.floor(iterations * 0.1)\<close> and
  \<open>Math.floor(iterations * 0.9)\<close> are taken exactly.\<close>

definition runMonteCarloSimulation ::
  "nat \<Rightarrow> rat list \<Rightarrow> rat \<Rightarrow> nat \<Rightarrow> (nat \<Rightarrow> nat \<Rightarrow> rat) \<Rightarrow> MonteCarloResult" where
  "runMonteCarloSimulation ticketCount hist daysAvailable iterations rnd =
     (let results = simulationResults ticketCount hist daysAvailable iterations rnd;
          expected = average (map of_nat results);
          probability =
            of_nat (length (filter (\<lambda>r. r = ticketCount) results)) / of_nat iterations;
          sorted = sort results;
          lowIndex = iterations div 10;
          highIndex = (iterations * 9) div 10
      in \<lparr>completionProbability = probability,
          expectedCompleted = \<lfloor>expected + 1 / 2\<rfloor>,
          confidenceInterval = \<lparr>low = at_index sorted lowIndex, high = at_index sorted highIndex\<rparr>\<rparr>)"

text \<open>Field names that several interfaces share are told apart: \<open>completionProbability\<close>
  is \<open>scenarioProbability\<close> in a scenario and \<open>predictedProbability\<close> in the predictions,
  whose \<open>confidenceInterval\<close> is \<open>predictedInterval\<close>.\<close>

record WhatIfScenario =
  scenario :: string
  scenarioProbability :: rat
  recommendation :: Advice

definition adviceFor :: "rat \<Rightarrow> Advice" where
  "adviceFor p = (if p > 7 / 10 then A_safe else if p > 5 / 10 then A_risky else A_avoid)"

text \<open>Each simulation draws its own random numbers: \<open>rnd 1\<close>, \<open>rnd 2\<close> and \<open>rnd 3\<close> for
  the three scenarios, \<open>rnd 0\<close> for the prediction itself.\<close>

definition generateWhatIfScenarios ::
  "nat \<Rightarrow> rat list \<Rightarrow> rat \<Rightarrow> (nat \<Rightarrow> nat \<Rightarrow> nat \<Rightarrow> rat) \<Rightarrow> WhatIfScenario list" where
  "generateWhatIfScenarios currentTickets hist daysRemaining rnd =
     (let addOneResult = runMonteCarloSimulation (currentTickets + 1) hist daysRemaining 500 (rnd 1);
          addTwoResult = runMonteCarloSimulation (currentTickets + 2) hist daysRemaining 500 (rnd 2)
      in [\<lparr>scenario = ''Add 1 more ticket'',
           scenarioProbability = completionProbability addOneResult,
           recommendation = adviceFor (completionProbability addOneResult)\<rparr>,
          \<lparr>scenario = ''Add 2 more tickets'',
           scenarioProbability = completionProbability addTwoResult,
           recommendation = adviceFor (completionProbability addTwoResult)\<rparr>]
         @ (if currentTickets > 1 then
              [\<lparr>scenario = ''Remove 1 ticket'',
                scenarioProbability =
                  completionProbability
                    (runMonteCarloSimulation (currentTickets - 1) hist daysRemaining 500 (rnd 3)),
                recommendation = A_safe\<rparr>]
            else []))"

record 'k Predictions =
  predictedProbability :: rat
  expectedTicketsCompleted :: int
  predictedInterval :: Interval
  atRiskTickets :: "'k list"

record CurrentState =
  totalTickets :: nat
  completedTickets :: nat
  remainingTickets :: nat
  daysRemaining :: nat
  currentVelocity :: nat

record 'k SprintPrediction = Analysis +
  predictions :: "'k Predictions"
  currentState :: CurrentState
  whatIfScenarios :: "WhatIfScenario list"

definition createInsufficientDataResponse_predictions ::
  "string \<Rightarrow> nat \<Rightarrow> int \<Rightarrow> 'k SprintPrediction" where
  "createInsufficientDataResponse_predictions a n now =
     \<lparr>accountId = a, confidence = C_low, lastUpdated = now,
      predictions = \<lparr>predictedProbability = 5 / 10, expectedTicketsCompleted = 0,
                     predictedInterval = \<lparr>low = Some 0, high = Some 0\<rparr>,
                     atRiskTickets = []\<rparr>,
      currentState = \<lparr>totalTickets = 0, completedTickets = 0, remainingTickets = 0,
                      daysRemaining = 0, currentVelocity = 0\<rparr>,
      whatIfScenarios = []\<rparr>"

text \<open>Resolved within the last 7 days: \<open>new Date(i.resolved) >= weekAgo\<close>.\<close>

definition recentCompletions :: "int \<Rightarrow> IssueWithMetrics list \<Rightarrow> IssueWithMetrics list" where
  "recentCompletions now historicalIssues =
     filter (\<lambda>i. case resolved i of None \<Rightarrow> False | Some r \<Rightarrow> r \<ge> now - 7 * msPerDay)
       historicalIssues"

text \<open>
  \<open>activeTickets\<close> is what \<open>getActiveIssues\<close> answers, \<open>historicalIssues\<close> what
  \<open>getUserIssuesWithMetrics\<close> answers; \<open>identifyAtRiskTickets\<close> is the helper.
\<close>

definition predictSprintCompletion ::
  "string \<Rightarrow> int \<Rightarrow> IssueWithMetrics list \<Rightarrow> IssueWithMetrics list
   \<Rightarrow> (nat \<Rightarrow> nat \<Rightarrow> nat \<Rightarrow> rat)
   \<Rightarrow> (IssueWithMetrics list \<Rightarrow> rat list \<Rightarrow> rat \<Rightarrow> 'k list)
   \<Rightarrow> 'k SprintPrediction Storage
   \<Rightarrow> error + 'k SprintPrediction \<times> 'k SprintPrediction Storage" where
  "predictSprintCompletion a now activeTickets historicalIssues rnd identifyAtRiskTickets st =
     (case getCached (cacheKeyOf NS_predictions a) 1 now st of
        (Some cached, st1) \<Rightarrow> Inr (cached, st1)
      | (None, st1) \<Rightarrow>
          if length historicalIssues < 5
          then Inr (createInsufficientDataResponse_predictions a (length historicalIssues) now, st1)
          else
            (let cycleTimes' = positiveCycleTimes historicalIssues
             in if length cycleTimes' = 0
                then Inr (createInsufficientDataResponse_predictions a 0 now, st1)
                else
                  (let velocity = length (recentCompletions now historicalIssues);
                       remaining = (10 :: nat);
                       simResults =
                         runMonteCarloSimulation (length activeTickets) cycleTimes'
                           (of_nat remaining) 1000 (rnd 0);
                       prediction =
                         \<lparr>accountId = a,
                          confidence = (if length historicalIssues > 30 then C_high
                                        else if length historicalIssues > 15 then C_medium
                                        else C_low),
                          lastUpdated = now,
                          predictions =
                            \<lparr>predictedProbability = completionProbability simResults,
                             expectedTicketsCompleted = expectedCompleted simResults,
                             predictedInterval = confidenceInterval simResults,
                             atRiskTickets =
                               identifyAtRiskTickets activeTickets cycleTimes' (of_nat remaining)\<rparr>,
                          currentState =
                            \<lparr>totalTickets = length activeTickets, completedTickets = 0,
                             remainingTickets = length activeTickets,
                             daysRemaining = remaining, currentVelocity = velocity\<rparr>,
                          whatIfScenarios =
                            generateWhatIfScenarios (length activeTickets) cycleTimes'
                              (of_nat remaining) rnd\<rparr>
                   in case setCache (cacheKeyOf NS_predictions a) prediction 1 now st1 of
                        Inl err \<Rightarrow> Inl err
                      | Inr st2 \<Rightarrow> Inr (prediction, st2))))"

subsection \<open>Sample data\<close>

definition empty_store :: "'a Storage" where
  "empty_store = \<lparr>entries = Map.empty, failing = False\<rparr>"

definition msPerHour :: int where
  "msPerHour = 1000 * 60 * 60"

text \<open>A store whose timing entry for \<open>u1\<close> was written at time 0 with a declared time to
  live of one hour.\<close>

definition one_hour_store :: "nat Storage" where
  "one_hour_store =
     \<lparr>entries = [buildCacheKey (cacheKeyOf NS_timing ''u1'') \<mapsto>
                   \<lparr>data = 7, CacheEntry.lastUpdated = 0, ttlHours = 1, version = CACHE_VERSION\<rparr>],
      failing = False\<rparr>"

text \<open>The same entry written under an older schema version.\<close>

definition stale_store :: "nat Storage" where
  "stale_store =
     \<lparr>entries = [buildCacheKey (cacheKeyOf NS_timing ''u1'') \<mapsto>
                   \<lparr>data = 7, CacheEntry.lastUpdated = 0, ttlHours = 24, version = ''1.1.0''\<rparr>],
      failing = False\<rparr>"

text \<open>Five issues created long before the eight weeks that end at \<open>sample_now\<close>, none
  resolved, and the answers of the load and timing analyzers for a subject with too
  little history.\<close>

definition quiet_issues :: "IssueWithMetrics list" where
  "quiet_issues =
     [mk_issue ''DT-1'' 0 None, mk_issue ''DT-2'' 0 None, mk_issue ''DT-3'' 0 None,
      mk_issue ''DT-4'' 0 None, mk_issue ''DT-5'' 0 None]"

definition sample_load :: "unit LoadAnalysis" where
  "sample_load = createInsufficientDataResponse_load ''u1'' 5 0"

definition sample_timing :: "unit TimingAnalysis" where
  "sample_timing = createInsufficientDataResponse_timing ''u1'' 5 0"

definition sample_now :: int where
  "sample_now = 100 * msPerDay"

definition quiet_analysis :: BurnoutAnalysis where
  "quiet_analysis =
     \<lparr>accountId = ''u1'', confidence = C_low, lastUpdated = sample_now, dataPoints = 5,
      burnoutScore = 5, riskLevel = R_healthy, riskFactors = [baselineFactor],
      trends = \<lparr>weeklyOverload = [0, 0, 0, 0, 0, 0, 0, 0],
                dangerHourWork = [0, 0, 0, 0, 0, 0, 0, 0],
                velocityTrend = [0, 0, 0, 0, 0, 0, 0, 0]\<rparr>\<rparr>"

definition quiet_store :: "BurnoutAnalysis Storage" where
  "quiet_store =
     \<lparr>entries = [buildCacheKey (cacheKeyOf NS_burnout ''u1'') \<mapsto>
                   \<lparr>data = quiet_analysis, CacheEntry.lastUpdated = sample_now, ttlHours = 6,
                    version = CACHE_VERSION\<rparr>],
      failing = False\<rparr>"

text \<open>A burnout analysis with score 40, cached one hour before \<open>sample_now\<close>.\<close>

definition cached_burnout :: BurnoutAnalysis where
  "cached_burnout =
     \<lparr>accountId = ''u1'', confidence = C_medium, lastUpdated = sample_now - msPerHour,
      dataPoints = 20, burnoutScore = 40, riskLevel = R_warning,
      riskFactors =
        [\<lparr>factor = sustained_overload, severity = S_critical, weeksAffected = 6, impact = 40\<rparr>],
      trends = \<lparr>weeklyOverload = [0, 0, 100, 100, 100, 100, 100, 100],
                dangerHourWork = [0, 0, 0, 0, 0, 0, 0, 0],
                velocityTrend = [1, 1, 1, 1, 1, 1, 1, 1]\<rparr>\<rparr>"

definition burnout_cached_store :: "BurnoutAnalysis Storage" where
  "burnout_cached_store =
     \<lparr>entries = [buildCacheKey (cacheKeyOf NS_burnout ''u1'') \<mapsto>
                   \<lparr>data = cached_burnout, CacheEntry.lastUpdated = sample_now - msPerHour,
                    ttlHours = 6, version = CACHE_VERSION\<rparr>],
      failing = False\<rparr>"

text \<open>
  A history of fifteen issues that were once assigned to the subject \<open>me\<close>: three are
  still the subject's own and took 10 days each, twelve are now assigned to a teammate
  and took 7 days each.
\<close>

definition own_issue :: "string \<Rightarrow> IssueWithMetrics" where
  "own_issue k =
     \<lparr>key = k, assignee = ''Me'', assigneeAccountId = ''me'', created = Some 0,
      resolved = None, metrics = Some \<lparr>cycleTimeDays = 10, leadTimeDays = 12\<rparr>\<rparr>"

definition shared_issue :: "string \<Rightarrow> IssueWithMetrics" where
  "shared_issue k =
     \<lparr>key = k, assignee = ''Mate'', assigneeAccountId = ''mate'', created = Some 0,
      resolved = None, metrics = Some \<lparr>cycleTimeDays = 7, leadTimeDays = 9\<rparr>\<rparr>"

definition own_history :: "IssueWithMetrics list" where
  "own_history = [own_issue ''DT-1'', own_issue ''DT-2'', own_issue ''DT-3'']"

definition shared_history :: "IssueWithMetrics list" where
  "shared_history =
     [shared_issue ''DT-4'', shared_issue ''DT-5'', shared_issue ''DT-6'',
      shared_issue ''DT-7'', shared_issue ''DT-8'', shared_issue ''DT-9'',
      shared_issue ''DT-10'', shared_issue ''DT-11'', shared_issue ''DT-12'',
      shared_issue ''DT-13'', shared_issue ''DT-14'', shared_issue ''DT-15'']"

definition pit_history :: "IssueWithMetrics list" where
  "pit_history = own_history @ shared_history"

text \<open>What \<open>extractCollaborationData\<close> records for the teammate.\<close>

definition pit_mate :: CollaborationData where
  "pit_mate =
     \<lparr>cd_accountId = ''mate'', cd_displayName = ''Mate'',
      sharedIssues = [''DT-4'', ''DT-5'', ''DT-6'', ''DT-7'', ''DT-8'', ''DT-9'', ''DT-10'',
                      ''DT-11'', ''DT-12'', ''DT-13'', ''DT-14'', ''DT-15''],
      cycleTimes = [7, 7, 7, 7, 7, 7, 7, 7, 7, 7, 7, 7]\<rparr>"

text \<open>The store after \<open>setCache\<close> of the payload 7 at time 0 with a time to live of
  48 hours.\<close>

definition two_day_store :: "nat Storage" where
  "two_day_store =
     \<lparr>entries = [buildCacheKey (cacheKeyOf NS_timing ''u1'') \<mapsto>
                   \<lparr>data = 7, CacheEntry.lastUpdated = 0, ttlHours = 48, version = CACHE_VERSION\<rparr>],
      failing = False\<rparr>"

text \<open>Four issues, below every analyzer's minimum sample.\<close>

definition four_issues :: "IssueWithMetrics list" where
  "four_issues =
     [mk_issue ''DT-1'' 0 None, mk_issue ''DT-2'' 0 None, mk_issue ''DT-3'' 0 None,
      mk_issue ''DT-4'' 0 None]"

text \<open>A random source that always draws the first historical cycle time.\<close>

definition first_sample :: "nat \<Rightarrow> nat \<Rightarrow> rat" where
  "first_sample i ticket = 0"

text \<open>Helpers for the analyzers whose analysis proper is a parameter.\<close>

definition timing_helpers ::
  "IssueWithMetrics list \<Rightarrow> PeakWindow \<times> DangerZone option \<times> (string \<rightharpoonup> unit)" where
  "timing_helpers issues =
     (\<lparr>pw_start = 9, pw_end = 11, qualityMultiplier = 1\<rparr>, None, Map.empty)"

definition load_helper :: "(IssueWithMetrics \<times> nat) list \<Rightarrow> (nat \<rightharpoonup> unit)" where
  "load_helper loaded = Map.empty"

definition strength_helpers ::
  "IssueWithMetrics list \<Rightarrow> (string \<rightharpoonup> unit) \<times> (string \<rightharpoonup> unit)" where
  "strength_helpers issues = (Map.empty, Map.empty)"

definition trend_helpers ::
  "IssueWithMetrics list \<Rightarrow> unit list \<times> unit list \<times> unit list \<times> PeriodComparison" where
  "trend_helpers issues =
     ([], [], [], periodComparison (createInsufficientDataResponse_trends ''u1'' 0 0
                                      :: (unit, unit) TrendAnalysis))"

definition pitcrew_helpers ::
  "(string \<times> CollaborationData) list \<Rightarrow> (string \<times> ChemistryScore) list
   \<Rightarrow> unit list \<times> unit list \<times> (unit, unit) TeamMetrics" where
  "pitcrew_helpers collaborationData chemistry =
     ([], [], \<lparr>avgCollaborationCycleTime = 0, fastestUnblocker = None, bestPair = None,
               totalCollaborations = 0\<rparr>)"

definition risk_helper :: "IssueWithMetrics list \<Rightarrow> rat list \<Rightarrow> rat \<Rightarrow> unit list" where
  "risk_helper active cycles remaining = []"

section \<open>Properties\<close>

subsection \<open>Cycle time and lead time\<close>

text \<open>Without a transition into a done status both times are 0.\<close>

lemma find_done_none_zero:
  assumes "List.find isDoneChange changelogs = None"
  shows "calculateCycleTime changelogs = 0 \<and> calculateLeadTime changelogs = 0"
proof
  show "calculateCycleTime changelogs = 0"
    unfolding calculateCycleTime_def Let_def assms by (simp split: option.splits)
  show "calculateLeadTime changelogs = 0"
    unfolding calculateLeadTime_def assms by (simp split: list.splits)
qed

text \<open>
  C1. The cycle time is stated to be the days from the first transition into progress to
  the first transition into done after it, and never negative. On the changelog of an
  issue that was closed, reopened into progress five days later and closed again after
  five more days, \<open>calculateCycleTime\<close> pairs the first transition into progress with the
  earlier closing and returns -5, where the stated cycle time is 5.
\<close>

theorem calculateCycleTime_reopened:
  "calculateCycleTime reopened_log = - 5 \<and> spec_cycle_time reopened_log = 5"
  by (simp add: calculateCycleTime_def spec_cycle_time_def reopened_log_def status_change_def
      isInProgressChange_def isDoneChange_def daysBetween_def)

subsection \<open>Concurrent load\<close>

text \<open>
  C2, as stated: three issues that overlap pairwise each get concurrent load 3. The three
  sample issues overlap pairwise and none of them gets 3.
\<close>

theorem concurrent_load_three_counterexample:
  "overlaps 0 (three_overlapping ! 0) (three_overlapping ! 1)
   \<and> overlaps 0 (three_overlapping ! 0) (three_overlapping ! 2)
   \<and> overlaps 0 (three_overlapping ! 1) (three_overlapping ! 2)
   \<and> calculateConcurrentLoad 0 (three_overlapping ! 0) three_overlapping \<noteq> Inr 3
   \<and> calculateConcurrentLoad 0 (three_overlapping ! 1) three_overlapping \<noteq> Inr 3
   \<and> calculateConcurrentLoad 0 (three_overlapping ! 2) three_overlapping \<noteq> Inr 3"
  by (simp add: three_overlapping_def mk_issue_def overlaps_def endOf_def
      calculateConcurrentLoad_def)

text \<open>
  C2, amended: for three issues with distinct keys whose activity intervals overlap
  pairwise, the concurrent load of each is 2: the two others are counted, the issue
  itself is not.
\<close>

theorem concurrent_load_three:
  assumes "key a \<noteq> key b" and "key a \<noteq> key c" and "key b \<noteq> key c"
    and "overlaps now a b" and "overlaps now a c" and "overlaps now b c"
  shows "calculateConcurrentLoad now a [a, b, c] = Inr 2
       \<and> calculateConcurrentLoad now b [a, b, c] = Inr 2
       \<and> calculateConcurrentLoad now c [a, b, c] = Inr 2"
proof -
  obtain sa sb sc where s: "created a = Some sa" "created b = Some sb" "created c = Some sc"
    using assms(4,6) by (auto simp add: overlaps_def split: option.splits)
  have ab: "sb \<le> endOf now a" "endOf now b \<ge> sa"
    and ac: "sc \<le> endOf now a" "endOf now c \<ge> sa"
    and bc: "sc \<le> endOf now b" "endOf now c \<ge> sb"
    using assms(4-6) s by (simp_all add: overlaps_def)
  have "calculateConcurrentLoad now a [a, b, c] = Inr 2"
    using assms(1-3) s ab ac by (simp add: calculateConcurrentLoad_def)
  moreover have "calculateConcurrentLoad now b [a, b, c] = Inr 2"
    using assms(1-3) s ab bc by (simp add: calculateConcurrentLoad_def)
  moreover have "calculateConcurrentLoad now c [a, b, c] = Inr 2"
    using assms(1-3) s ac bc by (simp add: calculateConcurrentLoad_def)
  ultimately show ?thesis by simp
qed

theorem concurrent_load_three_witness:
  "calculateConcurrentLoad 0 (mk_issue ''DT-1'' 0 (Some 345600000)) three_overlapping = Inr 2
   \<and> calculateConcurrentLoad 0 (mk_issue ''DT-2'' 86400000 (Some 432000000)) three_overlapping = Inr 2
   \<and> calculateConcurrentLoad 0 (mk_issue ''DT-3'' 172800000 (Some 259200000)) three_overlapping = Inr 2"
proof -
  let ?a = "mk_issue ''DT-1'' 0 (Some 345600000)"
  let ?b = "mk_issue ''DT-2'' 86400000 (Some 432000000)"
  let ?c = "mk_issue ''DT-3'' 172800000 (Some 259200000)"
  have k: "key ?a \<noteq> key ?b" "key ?a \<noteq> key ?c" "key ?b \<noteq> key ?c"
    by (simp_all add: mk_issue_def)
  have o: "overlaps 0 ?a ?b" "overlaps 0 ?a ?c" "overlaps 0 ?b ?c"
    by (simp_all add: mk_issue_def overlaps_def endOf_def)
  from concurrent_load_three [OF k o] show ?thesis
    by (simp add: three_overlapping_def)
qed

subsection \<open>Cache\<close>

lemma setCache_empty:
  "setCache k payload ttl t0 empty_store =
     Inr \<lparr>entries = [buildCacheKey k \<mapsto>
              \<lparr>data = payload, CacheEntry.lastUpdated = t0, ttlHours = ttl, version = CACHE_VERSION\<rparr>],
          failing = False\<rparr>"
  by (simp add: setCache_def storage_set_def empty_store_def)

text \<open>
  C4, as stated: after a set with a time to live, a get returns the payload before that
  time to live has elapsed and absent after it. An entry set with 48 hours reads as
  absent after 30 hours for a reader that passes the default of 24 hours, and an entry
  set with 1 hour still reads as its payload after 2 hours for the same reader.
\<close>

theorem getCached_after_setCache_counterexample:
  "setCache (cacheKeyOf NS_timing ''u1'') (7::nat) 48 0 empty_store = Inr two_day_store
   \<and> of_int (30 * msPerHour - 0) < (48::rat) * 60 * 60 * 1000
   \<and> fst (getCached (cacheKeyOf NS_timing ''u1'') DEFAULT_TTL_HOURS (30 * msPerHour)
            two_day_store) = None
   \<and> setCache (cacheKeyOf NS_timing ''u1'') (7::nat) 1 0 empty_store = Inr one_hour_store
   \<and> of_int (2 * msPerHour - 0) > (1::rat) * 60 * 60 * 1000
   \<and> fst (getCached (cacheKeyOf NS_timing ''u1'') DEFAULT_TTL_HOURS (2 * msPerHour)
            one_hour_store) = Some 7"
  by (simp add: setCache_empty two_day_store_def one_hour_store_def getCached_def
      storage_get_def DEFAULT_TTL_HOURS_def msPerHour_def Let_def)

text \<open>
  C4, amended: after a successful \<open>setCache\<close> of a payload under a key, whatever time to
  live it was set with, a \<open>getCached\<close> for that key returns the payload as long as the age
  of the entry does not exceed the time to live passed to \<open>getCached\<close>, and absent once
  the age exceeds it; so a reader that passes the time to live of the set gets the
  payload before it has elapsed and absent after. An entry whose version is not the
  current schema version reads as absent. \<open>getCached\<close> has no error result: it is a total
  function into an option.
\<close>

theorem getCached_after_setCache_reader:
  "(setCache k payload ttl t0 st = Inr st' \<longrightarrow>
      (of_int (t1 - t0) \<le> rttl * 3600000 \<longrightarrow> fst (getCached k rttl t1 st') = Some payload) \<and>
      (of_int (t1 - t0) > rttl * 3600000 \<longrightarrow> fst (getCached k rttl t1 st') = None) \<and>
      (of_int (t1 - t0) \<le> ttl * 3600000 \<longrightarrow> fst (getCached k ttl t1 st') = Some payload) \<and>
      (of_int (t1 - t0) > ttl * 3600000 \<longrightarrow> fst (getCached k ttl t1 st') = None))
   \<and> (entries s (buildCacheKey k) = Some e \<and> version e \<noteq> CACHE_VERSION \<longrightarrow>
        fst (getCached k ttl2 t2 s) = None)"
  by (auto simp add: setCache_def getCached_def storage_set_def storage_get_def storage_delete_def
      Let_def split: if_splits)

theorem getCached_after_setCache_reader_witness:
  "fst (getCached (cacheKeyOf NS_timing ''u1'') 24 (23 * msPerHour) two_day_store) = Some 7
   \<and> fst (getCached (cacheKeyOf NS_timing ''u1'') 24 (30 * msPerHour) two_day_store) = None
   \<and> fst (getCached (cacheKeyOf NS_timing ''u1'') 48 (30 * msPerHour) two_day_store) = Some 7
   \<and> fst (getCached (cacheKeyOf NS_timing ''u1'') 48 (49 * msPerHour) two_day_store) = None
   \<and> fst (getCached (cacheKeyOf NS_timing ''u1'') 24 msPerHour stale_store) = None"
proof -
  let ?k = "cacheKeyOf NS_timing ''u1''"
  let ?e = "\<lparr>data = 7::nat, CacheEntry.lastUpdated = 0, ttlHours = 24, version = ''1.1.0''\<rparr>"
  have s: "setCache ?k (7::nat) 48 0 empty_store = Inr two_day_store"
    by (simp add: setCache_empty two_day_store_def)
  have e: "entries stale_store (buildCacheKey ?k) = Some ?e"
    by (simp add: stale_store_def)
  have v: "version ?e \<noteq> CACHE_VERSION"
    by (simp add: CACHE_VERSION_def)
  from getCached_after_setCache_reader
         [of ?k 7 48 0 empty_store two_day_store "23 * msPerHour" 24 stale_store ?e 24 msPerHour]
       getCached_after_setCache_reader
         [of ?k 7 48 0 empty_store two_day_store "30 * msPerHour" 24 stale_store ?e 24 msPerHour]
       getCached_after_setCache_reader
         [of ?k 7 48 0 empty_store two_day_store "49 * msPerHour" 24 stale_store ?e 24 msPerHour]
       s e v
  show ?thesis by (simp add: msPerHour_def)
qed

text \<open>
  C5, as stated: an entry reads as absent exactly when its age exceeds the \<open>ttlHours\<close>
  recorded in it. The sample entry declares one hour and is two hours old, and a reader
  that passes 24 hours gets its payload.
\<close>

theorem getCached_ignores_entry_ttl_counterexample:
  "of_int (2 * msPerHour - 0) > (1::rat) * 60 * 60 * 1000
   \<and> fst (getCached (cacheKeyOf NS_timing ''u1'') 24 (2 * msPerHour) one_hour_store) = Some 7"
  by (simp add: getCached_def storage_get_def one_hour_store_def msPerHour_def Let_def)

text \<open>
  C5, amended: a stored entry of the current version reads as absent exactly when its
  age exceeds the time to live that the reader passes to \<open>getCached\<close>; the \<open>ttlHours\<close>
  recorded in the entry has no influence on the result.
\<close>

theorem getCached_expiry_reader_ttl:
  assumes "\<not> failing st" and "entries st (buildCacheKey k) = Some e"
    and "version e = CACHE_VERSION"
  shows "(fst (getCached k ttl now st) = None
            \<longleftrightarrow> of_int (now - CacheEntry.lastUpdated e) > ttl * 60 * 60 * 1000)
       \<and> fst (getCached k ttl now
                 (st\<lparr>entries := (entries st)(buildCacheKey k \<mapsto> e\<lparr>ttlHours := h\<rparr>)\<rparr>))
           = fst (getCached k ttl now st)"
  using assms by (simp add: getCached_def storage_get_def Let_def)

theorem getCached_expiry_reader_ttl_witness:
  "(fst (getCached (cacheKeyOf NS_timing ''u1'') 24 (25 * msPerHour) one_hour_store) = None)
   \<and> fst (getCached (cacheKeyOf NS_timing ''u1'') 24 (2 * msPerHour)
            (one_hour_store\<lparr>entries := (entries one_hour_store)
               (buildCacheKey (cacheKeyOf NS_timing ''u1'') \<mapsto>
                  \<lparr>data = 7, CacheEntry.lastUpdated = 0, ttlHours = 100, version = CACHE_VERSION\<rparr>)\<rparr>))
       = Some 7"
proof -
  let ?k = "cacheKeyOf NS_timing ''u1''"
  let ?e = "\<lparr>data = 7::nat, CacheEntry.lastUpdated = 0, ttlHours = 1, version = CACHE_VERSION\<rparr>"
  have a: "\<not> failing one_hour_store" by (simp add: one_hour_store_def)
  have b: "entries one_hour_store (buildCacheKey ?k) = Some ?e" by (simp add: one_hour_store_def)
  have c: "version ?e = CACHE_VERSION" by simp
  have d: "fst (getCached ?k 24 (2 * msPerHour) one_hour_store) = Some 7"
    by (simp add: getCached_def storage_get_def one_hour_store_def msPerHour_def Let_def)
  from getCached_expiry_reader_ttl [OF a b c, of 24 "25 * msPerHour" 100]
       getCached_expiry_reader_ttl [OF a b c, of 24 "2 * msPerHour" 100] d
  show ?thesis by (simp add: msPerHour_def)
qed

subsection \<open>Burnout score\<close>

lemma impact_sum_ge:
  "\<forall>f \<in> set fs. impact f \<ge> 5 \<Longrightarrow> foldl (\<lambda>sum f. sum + impact f) s fs \<ge> s + 5 * int (length fs)"
proof (induction fs arbitrary: s)
  case Nil
  then show ?case by simp
next
  case (Cons f fs)
  from Cons.prems have "impact f \<ge> 5" and rest: "\<forall>g \<in> set fs. impact g \<ge> 5" by simp_all
  from Cons.IH [OF rest, of "s + impact f"] \<open>impact f \<ge> 5\<close> show ?case by simp
qed

text \<open>Every factor that \<open>detectRiskFactors\<close> pushes weighs at least 5.\<close>

lemma factor1_impact: "f \<in> set (factor1 w) \<Longrightarrow> impact f \<ge> 5"
  by (auto simp add: factor1_def Let_def split: if_splits)

lemma factor2_impact: "f \<in> set (factor2 s l) \<Longrightarrow> impact f \<ge> 5"
  by (auto simp add: factor2_def Let_def split: if_splits)

lemma factor3_impact: "f \<in> set (factor3 w) \<Longrightarrow> impact f \<ge> 5"
  by (auto simp add: factor3_def Let_def split: if_splits)

lemma factor4_impact: "f \<in> set (factor4 d h) \<Longrightarrow> impact f \<ge> 5"
  by (auto simp add: factor4_def Let_def split: if_splits option.splits)

lemma factor5_impact: "f \<in> set (factor5 w) \<Longrightarrow> impact f \<ge> 5"
  by (auto simp add: factor5_def Let_def split: if_splits)

lemma detectRiskFactors_impact:
  "f \<in> set (detectRiskFactors w la ta h) \<Longrightarrow> impact f \<ge> 5"
  using factor1_impact factor2_impact factor3_impact factor4_impact factor5_impact
  by (auto simp add: detectRiskFactors_def)

lemma score_bounds:
  assumes "fs \<noteq> []" and "\<forall>f \<in> set fs. impact f \<ge> 5"
  shows "5 \<le> calculateBurnoutScore fs \<and> calculateBurnoutScore fs \<le> 100"
proof -
  have "length fs \<ge> 1" using assms(1) by (cases fs) simp_all
  with impact_sum_ge [OF assms(2), of 0] have "foldl (\<lambda>sum f. sum + impact f) 0 fs \<ge> 5"
    by simp
  then show ?thesis using assms(1) by (simp add: calculateBurnoutScore_def)
qed

lemma withBaseline_bounds:
  "5 \<le> calculateBurnoutScore (withBaseline (detectRiskFactors w la ta h))
   \<and> calculateBurnoutScore (withBaseline (detectRiskFactors w la ta h)) \<le> 100"
proof (rule score_bounds)
  show "withBaseline (detectRiskFactors w la ta h) \<noteq> []"
    by (simp add: withBaseline_def)
  show "\<forall>f \<in> set (withBaseline (detectRiskFactors w la ta h)). impact f \<ge> 5"
    using detectRiskFactors_impact [of _ w la ta h]
    by (auto simp add: withBaseline_def baselineFactor_def)
qed

text \<open>What the entry point returns, on each of its two paths.\<close>

lemma analyzeBurnoutRisk_result:
  assumes "analyzeBurnoutRisk a now h issues la ta st = Inr (r, st')"
  shows "(length issues < 5 \<and> r = createInsufficientDataResponse_burnout a (length issues) now)
       \<or> (length issues \<ge> 5
            \<and> riskFactors r = withBaseline (detectRiskFactors (analyzeWeeklyPatterns issues now) la ta h)
            \<and> burnoutScore r = calculateBurnoutScore (riskFactors r)
            \<and> riskLevel r = determinRiskLevel (burnoutScore r))"
proof (cases "length issues < 5")
  case True
  with assms show ?thesis
    by (auto simp add: analyzeBurnoutRisk_def split: prod.splits)
next
  case False
  with assms show ?thesis
    by (auto simp add: analyzeBurnoutRisk_def Let_def split: prod.splits sum.splits)
qed

lemma weeks_desc: "rev [0..<8] = [7, 6, 5, 4, 3, 2, 1, 0::nat]"
  by code_simp

lemma quiet_weeks:
  "analyzeWeeklyPatterns quiet_issues sample_now =
     \<lparr>weeklyOverload = [0, 0, 0, 0, 0, 0, 0, 0],
      dangerHourWork = [0, 0, 0, 0, 0, 0, 0, 0],
      velocityTrend = [0, 0, 0, 0, 0, 0, 0, 0]\<rparr>"
  unfolding analyzeWeeklyPatterns_def weeks_desc
  by (simp add: overloadEstimate_def completedInWeek_def createdInWeek_def inWeek_def
      quiet_issues_def mk_issue_def sample_now_def msPerDay_def Let_def)

lemma quiet_factors:
  "detectRiskFactors (analyzeWeeklyPatterns quiet_issues sample_now) sample_load sample_timing 12 = []"
  unfolding quiet_weeks
  by (simp add: detectRiskFactors_def factor1_def factor2_def factor3_def factor4_def
      factor5_def velocityMean_def sample_load_def sample_timing_def
      createInsufficientDataResponse_load_def createInsufficientDataResponse_timing_def Let_def)

lemma quiet_run:
  "analyzeBurnoutRisk ''u1'' sample_now 12 quiet_issues sample_load sample_timing empty_store =
     Inr (quiet_analysis, quiet_store)"
proof -
  have g: "getCached (cacheKeyOf NS_burnout ''u1'') 6 sample_now (empty_store :: BurnoutAnalysis Storage)
      = (None, empty_store)"
    by (simp add: getCached_def storage_get_def empty_store_def)
  have l: "length quiet_issues = 5" by (simp add: quiet_issues_def)
  show ?thesis
    unfolding analyzeBurnoutRisk_def g Let_def quiet_factors
    by (simp add: l quiet_weeks setCache_empty calculateBurnoutScore_def baselineFactor_def
        withBaseline_def determinRiskLevel_def quiet_analysis_def quiet_store_def)
qed

text \<open>
  C3. Whatever the burnout analyzer returns, its score lies between 0 and 100 and its risk
  level is the level of that score. The level of a score is healthy below 30, warning
  from 30 to 49, high from 50 to 69 and critical from 70 on; 69 is high and 70 is
  critical; and a larger score never has a lower level.
\<close>

theorem burnout_score_range_and_levels:
  "(analyzeBurnoutRisk a now h issues la ta st = Inr (r, st') \<longrightarrow>
      0 \<le> burnoutScore r \<and> burnoutScore r \<le> 100
      \<and> riskLevel r = determinRiskLevel (burnoutScore r))
   \<and> determinRiskLevel s =
       (if s < 30 then R_healthy else if s \<le> 49 then R_warning
        else if s \<le> 69 then R_high else R_critical)
   \<and> determinRiskLevel 69 = R_high \<and> determinRiskLevel 70 = R_critical
   \<and> (s \<le> t \<longrightarrow> level_rank (determinRiskLevel s) \<le> level_rank (determinRiskLevel t))"
proof -
  have "0 \<le> burnoutScore r \<and> burnoutScore r \<le> 100
      \<and> riskLevel r = determinRiskLevel (burnoutScore r)"
    if "analyzeBurnoutRisk a now h issues la ta st = Inr (r, st')"
    using analyzeBurnoutRisk_result [OF that]
      withBaseline_bounds [of "analyzeWeeklyPatterns issues now" la ta h]
    by (auto simp add: createInsufficientDataResponse_burnout_def determinRiskLevel_def)
  moreover have "s \<le> t \<longrightarrow> level_rank (determinRiskLevel s) \<le> level_rank (determinRiskLevel t)"
    by (simp add: determinRiskLevel_def level_rank_def)
  ultimately show ?thesis
    by (simp add: determinRiskLevel_def)
qed

theorem burnout_score_range_and_levels_witness:
  "0 \<le> burnoutScore quiet_analysis \<and> burnoutScore quiet_analysis \<le> 100
   \<and> riskLevel quiet_analysis = determinRiskLevel 5
   \<and> level_rank (determinRiskLevel 69) \<le> level_rank (determinRiskLevel 70)"
  using burnout_score_range_and_levels [of "''u1''" sample_now 12 quiet_issues sample_load
      sample_timing empty_store quiet_analysis quiet_store 69 70] quiet_run
  by (simp add: quiet_analysis_def determinRiskLevel_def level_rank_def)

text \<open>
  C10. When the burnout analyzer returns for a history of at least 5 issues, the score is
  at least 5; a score of 0 comes only from the path for insufficient data; and when no
  risk factor is detected, the factors of the result are the one baseline factor of
  impact 5.
\<close>

theorem burnout_score_at_least_five:
  assumes "analyzeBurnoutRisk a now h issues la ta st = Inr (r, st')"
  shows "(length issues \<ge> 5 \<longrightarrow> burnoutScore r \<ge> 5)
       \<and> (burnoutScore r = 0 \<longrightarrow> length issues < 5)
       \<and> (length issues \<ge> 5
            \<and> detectRiskFactors (analyzeWeeklyPatterns issues now) la ta h = []
          \<longrightarrow> riskFactors r = [baselineFactor] \<and> impact baselineFactor = 5)"
  using analyzeBurnoutRisk_result [OF assms]
    withBaseline_bounds [of "analyzeWeeklyPatterns issues now" la ta h]
  by (auto simp add: withBaseline_def baselineFactor_def)

theorem burnout_score_at_least_five_witness:
  "length quiet_issues \<ge> 5 \<and> burnoutScore quiet_analysis \<ge> 5
   \<and> riskFactors quiet_analysis = [baselineFactor]"
  using burnout_score_at_least_five [OF quiet_run] quiet_factors
  by (simp add: quiet_issues_def)

subsection \<open>Double precision\<close>

lemma pow2_pos: "0 < pow2 e"
  by (simp add: pow2_def)

lemma pow2_eq_powi: "pow2 e = 2 powi e"
  by (simp add: pow2_def power_int_def field_simps)

lemma pow2_mono: "e \<le> e' \<Longrightarrow> pow2 e \<le> pow2 e'"
  unfolding pow2_eq_powi by (rule power_int_increasing) simp_all

lemma round_even_ge_floor: "\<lfloor>x\<rfloor> \<le> round_even x"
  by (simp add: round_even_def Let_def)

text \<open>The exponent of a positive number bounds it from below.\<close>

lemma exponent_of_le:
  assumes "0 < a"
  shows "pow2 (exponent_of a) \<le> a"
proof (cases "a \<ge> 1")
  case True
  then have f: "0 < \<lfloor>a\<rfloor>" by linarith
  from bitlen_bounds [OF f] have b: "2 ^ nat (bitlen \<lfloor>a\<rfloor> - 1) \<le> \<lfloor>a\<rfloor>" by simp
  from f have "bitlen \<lfloor>a\<rfloor> \<ge> 1" by (auto simp add: bitlen_alt_def)
  then have "pow2 (exponent_of a) = of_int (2 ^ nat (bitlen \<lfloor>a\<rfloor> - 1))"
    using True by (simp add: exponent_of_def pow2_def)
  also have "\<dots> \<le> of_int \<lfloor>a\<rfloor>" using b by (simp only: of_int_le_iff)
  also have "\<dots> \<le> a" by simp
  finally show ?thesis .
next
  case False
  with assms have inv: "1 < 1 / a" by (simp add: field_simps)
  then have f: "0 < \<lfloor>1 / a\<rfloor>" by linarith
  define k where "k = bitlen \<lfloor>1 / a\<rfloor> - 1"
  from f have k0: "0 \<le> k" by (auto simp add: k_def bitlen_alt_def)
  have e: "exponent_of a = (if a = pow2 (- k) then - k else - k - 1)"
    using False unfolding exponent_of_def k_def Let_def by simp
  show ?thesis
  proof (cases "a = pow2 (- k)")
    case True
    with e have "exponent_of a = - k" by simp
    then show ?thesis using True by simp
  next
    case ne: False
    with e have e': "exponent_of a = - k - 1" by simp
    from bitlen_bounds [OF f] have "\<lfloor>1 / a\<rfloor> < 2 ^ nat (bitlen \<lfloor>1 / a\<rfloor>)" by simp
    then have "\<lfloor>1 / a\<rfloor> + 1 \<le> 2 ^ nat (k + 1)" by (simp add: k_def)
    then have "(of_int (\<lfloor>1 / a\<rfloor> + 1) :: rat) \<le> of_int (2 ^ nat (k + 1))"
      by (simp only: of_int_le_iff)
    moreover have "1 / a \<le> of_int (\<lfloor>1 / a\<rfloor> + 1)" by linarith
    ultimately have "1 / a \<le> 2 ^ nat (k + 1)" by simp
    with assms have "1 / 2 ^ nat (k + 1) \<le> a" by (simp add: field_simps)
    moreover have "pow2 (- k - 1) = 1 / 2 ^ nat (k + 1)"
      using k0 by (simp add: pow2_def)
    ultimately show ?thesis using e' by simp
  qed
qed

text \<open>Rounding keeps a positive number positive.\<close>

lemma round_double_pos:
  assumes "0 < x"
  shows "0 < round_double x"
proof -
  define ulp where "ulp = pow2 (exponent_of x - 52)"
  have u: "0 < ulp" by (simp add: ulp_def pow2_pos)
  have "ulp \<le> pow2 (exponent_of x)" unfolding ulp_def by (rule pow2_mono) simp
  also have "\<dots> \<le> x" using assms by (rule exponent_of_le)
  finally have "1 \<le> x / ulp" using u by (simp add: field_simps)
  then have "1 \<le> \<lfloor>x / ulp\<rfloor>" by linarith
  with round_even_ge_floor [of "x / ulp"] have "0 < round_even (x / ulp)" by linarith
  then have "0 < of_int (round_even (x / ulp)) * ulp" using u by simp
  then show ?thesis using assms by (simp add: round_double_def Let_def ulp_def)
qed

text \<open>The doubles nearest to 1.2 and 0.8, and a quotient that exact arithmetic puts at
  1.2 and double arithmetic one step above the double 1.2.\<close>

lemma double_thresholds:
  "round_double (12 / 10) = 5404319552844595 / 4503599627370496
   \<and> round_double (8 / 10) = 3602879701896397 / 4503599627370496"
  by code_simp

lemma double_rounding_decides:
  "11 / (55 / 6) = (12 / 10 :: rat)
   \<and> fl_div 11 (average [9, 9, 9, 9, 9, 10]) = 5404319552844596 / 4503599627370496
   \<and> round_double (12 / 10) < fl_div 11 (average [9, 9, 9, 9, 9, 10])"
  by code_simp

subsection \<open>Chemistry score\<close>

lemma foldl_fl_add_pos:
  "0 < acc \<Longrightarrow> \<forall>x \<in> set xs. 0 < x \<Longrightarrow> 0 < foldl (\<lambda>sum n. fl_add sum n) acc xs"
proof (induction xs arbitrary: acc)
  case Nil
  then show ?case by simp
next
  case (Cons x xs)
  from Cons.prems have "0 < acc + x" by simp
  then have "0 < fl_add acc x" unfolding fl_add_def by (rule round_double_pos)
  from Cons.IH [OF this] Cons.prems show ?case by simp
qed

lemma average_pos:
  assumes "xs \<noteq> []" and "\<forall>x \<in> set xs. 0 < x"
  shows "0 < average xs"
proof -
  from assms obtain y ys where xs: "xs = y # ys" by (cases xs) auto
  with assms(2) have "0 < 0 + y" by simp
  then have "0 < fl_add 0 y" unfolding fl_add_def by (rule round_double_pos)
  from foldl_fl_add_pos [OF this, of ys] assms(2) xs
  have s: "0 < foldl (\<lambda>sum n. fl_add sum n) 0 xs" by simp
  have "0 < foldl (\<lambda>sum n. fl_add sum n) 0 xs / of_nat (length xs)"
    using s assms(1) by simp
  then have "0 < fl_div (foldl (\<lambda>sum n. fl_add sum n) 0 xs) (of_nat (length xs))"
    unfolding fl_div_def by (rule round_double_pos)
  then show ?thesis using assms(1) by (simp add: average_def)
qed

lemma addShared_cycleTimes:
  "\<forall>c \<in> set (cycleTimes d). 0 < c \<Longrightarrow> \<forall>c \<in> set (cycleTimes (addShared issue d)). 0 < c"
  by (auto simp add: addShared_def Let_def split: option.splits if_splits)

lemma recordShared_cycleTimes:
  "\<forall>(k', d) \<in> set cs. \<forall>c \<in> set (cycleTimes d). 0 < c
     \<Longrightarrow> \<forall>(k', d) \<in> set (recordShared k issue cs). \<forall>c \<in> set (cycleTimes d). 0 < c"
proof (induction cs)
  case Nil
  have "\<forall>c \<in> set (cycleTimes (addShared issue \<lparr>cd_accountId = k, cd_displayName = assignee issue,
                           sharedIssues = [], cycleTimes = []\<rparr>)). 0 < c"
    by (rule addShared_cycleTimes) simp
  then show ?case by simp
next
  case (Cons p cs)
  obtain k' d where p: "p = (k', d)" by (cases p)
  show ?case
  proof (cases "k' = k")
    case True
    from Cons.prems p have "\<forall>c \<in> set (cycleTimes d). 0 < c" by simp
    then have "\<forall>c \<in> set (cycleTimes (addShared issue d)). 0 < c"
      by (rule addShared_cycleTimes)
    with Cons.prems p True show ?thesis by simp
  next
    case False
    from Cons.prems have "\<forall>(k', d) \<in> set cs. \<forall>c \<in> set (cycleTimes d). 0 < c" by simp
    from Cons.IH [OF this] Cons.prems p False show ?thesis by simp
  qed
qed

lemma foldl_collab_cycleTimes:
  "\<forall>(k', d) \<in> set cs. \<forall>c \<in> set (cycleTimes d). 0 < c
     \<Longrightarrow> \<forall>(k', d) \<in> set (foldl (\<lambda>collaborations issue.
              if assigneeAccountId issue \<noteq> [] \<and> assigneeAccountId issue \<noteq> uid
              then recordShared (assigneeAccountId issue) issue collaborations
              else collaborations) cs issues). \<forall>c \<in> set (cycleTimes d). 0 < c"
proof (induction issues arbitrary: cs)
  case Nil
  then show ?case by simp
next
  case (Cons i issues)
  show ?case
  proof (cases "assigneeAccountId i \<noteq> [] \<and> assigneeAccountId i \<noteq> uid")
    case True
    from recordShared_cycleTimes [OF Cons.prems, of "assigneeAccountId i" i]
    have "\<forall>(k', d) \<in> set (recordShared (assigneeAccountId i) i cs). \<forall>c \<in> set (cycleTimes d). 0 < c" .
    from Cons.IH [OF this] True show ?thesis by simp
  next
    case False
    from Cons.IH [OF Cons.prems] False show ?thesis by auto
  qed
qed

lemma soloAvgOf_pos: "0 < soloAvgOf issues"
proof -
  have "\<forall>x \<in> set (positiveCycleTimes issues). 0 < x"
    by (auto simp add: positiveCycleTimes_def List.map_filter_def split: option.splits if_splits)
  then show ?thesis
    using average_pos [of "positiveCycleTimes issues"]
    by (auto simp add: soloAvgOf_def Let_def)
qed

text \<open>For a collaborator recorded from a history the speed multiplier is the rounded
  quotient of the mean over all issues by a positive divisor.\<close>

lemma speedMultiplier_divisor_pos:
  assumes "(a, d) \<in> set (extractCollaborationData issues uid)"
  shows "\<exists>collaborationAvg. 0 < collaborationAvg
           \<and> speedMultiplierOf (soloAvgOf issues) d
               = round_double (soloAvgOf issues / collaborationAvg)"
proof -
  have "\<forall>(k', d) \<in> set (extractCollaborationData issues uid). \<forall>c \<in> set (cycleTimes d). 0 < c"
    unfolding extractCollaborationData_def by (rule foldl_collab_cycleTimes) simp
  with assms have pos: "\<forall>c \<in> set (cycleTimes d). 0 < c" by auto
  show ?thesis
  proof (cases "cycleTimes d = []")
    case True
    then show ?thesis using soloAvgOf_pos [of issues]
      by (auto simp add: speedMultiplierOf_def fl_div_def)
  next
    case False
    from pos have "\<forall>x \<in> set (map of_int (cycleTimes d) :: rat list). 0 < x" by simp
    with False have "0 < average (map of_int (cycleTimes d))"
      using average_pos [of "map of_int (cycleTimes d)"] by simp
    with False show ?thesis using soloAvgOf_pos [of issues]
      by (auto simp add: speedMultiplierOf_def fl_div_def)
  qed
qed

text \<open>
  The rule of the score holds for every entry of the chemistry scores: the score is the
  stated function of the entry's speed multiplier and number of shared items, it lies
  within 0..100, and the rating is excellent exactly from a score of 80 on.
\<close>

lemma chemistryOf_rule:
  "score (chemistryOf soloAvg a d)
     = spec_chemistry_score (speedMultiplier (chemistryOf soloAvg a d))
         (collaborations (chemistryOf soloAvg a d))
   \<and> (rating (chemistryOf soloAvg a d) = Rt_excellent \<longleftrightarrow> score (chemistryOf soloAvg a d) \<ge> 80)
   \<and> 0 \<le> score (chemistryOf soloAvg a d) \<and> score (chemistryOf soloAvg a d) \<le> 100"
  by (simp add: chemistryOf_def spec_chemistry_score_def Let_def)

lemma chemistry_scores_rule:
  assumes "(a, c) \<in> set (calculateChemistryScores (extractCollaborationData issues uid) issues)"
  shows "score c = spec_chemistry_score (speedMultiplier c) (collaborations c)
       \<and> (rating c = Rt_excellent \<longleftrightarrow> score c \<ge> 80)
       \<and> 0 \<le> score c \<and> score c \<le> 100"
proof -
  from assms obtain d' where "c = chemistryOf (soloAvgOf issues) a d'"
    by (auto simp add: calculateChemistryScores_def Let_def)
  then show ?thesis using chemistryOf_rule [of "soloAvgOf issues" a d'] by simp
qed

text \<open>
  A teammate with six shared issues of 9, 9, 9, 9, 9 and 10 days, for a mean of 11 days
  over all issues: the exact quotient is 1.2, the quotient of the doubles exceeds the
  double 1.2, and the score is 50 + 30 + 10.
\<close>

lemma chemistry_rounding_example:
  "score (chemistryOf 11 ''mate''
            \<lparr>cd_accountId = ''mate'', cd_displayName = ''Mate'',
             sharedIssues = [''DT-1'', ''DT-2'', ''DT-3'', ''DT-4'', ''DT-5'', ''DT-6''],
             cycleTimes = [9, 9, 9, 9, 9, 10]\<rparr>) = 90"
proof -
  have q: "fl_div 11 (average [9, 9, 9, 9, 9, 10]) = 5404319552844596 / 4503599627370496"
    using double_rounding_decides by simp
  have t: "round_double (12 / 10) = 5404319552844595 / 4503599627370496"
    using double_thresholds by simp
  show ?thesis
    unfolding chemistryOf_def speedMultiplierOf_def Let_def t
    by (simp add: q)
qed

lemma own_mean: "average (positiveCycleTimes own_history) = 10"
proof -
  have "positiveCycleTimes own_history = [10, 10, 10]"
    by (simp add: positiveCycleTimes_def own_history_def own_issue_def)
  moreover have "average [10, 10, 10] = 10" by code_simp
  ultimately show ?thesis by simp
qed

lemma shared_mean: "average (map of_int (cycleTimes pit_mate)) = 7"
proof -
  have "map of_int (cycleTimes pit_mate) = [7, 7, 7, 7, 7, 7, 7, 7, 7, 7, 7, 7 :: rat]"
    by (simp add: pit_mate_def)
  moreover have "average [7, 7, 7, 7, 7, 7, 7, 7, 7, 7, 7, 7] = 7" by code_simp
  ultimately show ?thesis by simp
qed

lemma pit_solo: "soloAvgOf pit_history = 4278419646001971 / 562949953421312"
proof -
  have "positiveCycleTimes pit_history = [10, 10, 10, 7, 7, 7, 7, 7, 7, 7, 7, 7, 7, 7, 7]"
    by (simp add: positiveCycleTimes_def pit_history_def own_history_def shared_history_def
        own_issue_def shared_issue_def)
  moreover have "average [10, 10, 10, 7, 7, 7, 7, 7, 7, 7, 7, 7, 7, 7, 7]
      = 4278419646001971 / 562949953421312" by code_simp
  ultimately show ?thesis by (simp add: soloAvgOf_def)
qed

lemma pit_collab:
  "extractCollaborationData pit_history ''me'' = [(''mate'', pit_mate)]"
  by (simp add: extractCollaborationData_def pit_history_def own_history_def shared_history_def
      own_issue_def shared_issue_def addShared_def pit_mate_def)

lemma pit_speed:
  "speedMultiplierOf (4278419646001971 / 562949953421312) pit_mate
     = 4889622452573681 / 4503599627370496"
proof -
  have "fl_div (4278419646001971 / 562949953421312) 7 = 4889622452573681 / 4503599627370496"
    by code_simp
  then show ?thesis
    by (simp add: speedMultiplierOf_def shared_mean) (simp add: pit_mate_def)
qed

text \<open>
  C7. The score is stated to follow from the speed multiplier by the rule above, which
  holds, and a collaborator with 12 shared items of mean cycle time 7 days is stated to
  get, from a subject whose solo mean is 10 days, the multiplier 1.43 and the score 100.
  In the sample history the subject's own issues have the mean 10 and the 12 shared ones
  the mean 7; the mean that \<open>calculateChemistryScores\<close> divides is taken over all issues,
  the shared ones included, and is 7.6; the multiplier is 1.0857 (38/35 up to rounding)
  and the score 85.
\<close>

theorem chemistry_solo_mean_includes_shared:
  "average (positiveCycleTimes own_history) = 10
   \<and> extractCollaborationData pit_history ''me'' = [(''mate'', pit_mate)]
   \<and> length (sharedIssues pit_mate) = 12
   \<and> average (map of_int (cycleTimes pit_mate)) = 7
   \<and> soloAvgOf pit_history = round_double (76 / 10)
   \<and> calculateChemistryScores (extractCollaborationData pit_history ''me'') pit_history
       = [(''mate'', \<lparr>teammate = ''mate'', displayName = ''Mate'', score = 85,
                      speedMultiplier = 4889622452573681 / 4503599627370496,
                      collaborations = 12, rating = Rt_excellent\<rparr>)]
   \<and> \<bar>4889622452573681 / 4503599627370496 - 38 / 35\<bar> < (1 / 10 ^ 15 :: rat)
   \<and> \<bar>4889622452573681 / 4503599627370496 - 143 / 100\<bar> > (3 / 10 :: rat)"
proof -
  have r: "round_double (76 / 10) = 4278419646001971 / 562949953421312" by code_simp
  have t: "round_double (12 / 10) = 5404319552844595 / 4503599627370496"
    using double_thresholds by simp
  have c: "chemistryOf (4278419646001971 / 562949953421312) ''mate'' pit_mate
      = \<lparr>teammate = ''mate'', displayName = ''Mate'', score = 85,
         speedMultiplier = 4889622452573681 / 4503599627370496,
         collaborations = 12, rating = Rt_excellent\<rparr>"
    unfolding chemistryOf_def pit_speed Let_def t by (simp add: pit_mate_def)
  have s: "calculateChemistryScores (extractCollaborationData pit_history ''me'') pit_history
       = [(''mate'', \<lparr>teammate = ''mate'', displayName = ''Mate'', score = 85,
                      speedMultiplier = 4889622452573681 / 4503599627370496,
                      collaborations = 12, rating = Rt_excellent\<rparr>)]"
    by (simp add: calculateChemistryScores_def pit_collab pit_solo c)
  have l: "length (sharedIssues pit_mate) = 12" by (simp add: pit_mate_def)
  show ?thesis
    using own_mean pit_collab shared_mean pit_solo r s l by simp
qed

subsection \<open>Monte Carlo completion probability\<close>

text \<open>A trial that completes all of \<open>n + 1\<close> tickets completes all of \<open>n\<close> tickets on the
  same draws.\<close>

lemma simulateTickets_all_done_fewer:
  "t \<le> n \<Longrightarrow> simulateTickets hist d rnd (Suc n) t u c = c + (Suc n - t)
     \<Longrightarrow> simulateTickets hist d rnd n t u c = c + (n - t)"
proof (induction hist d rnd n t u c rule: simulateTickets.induct)
  case (1 hist d rnd n t u c)
  show ?case
  proof (cases "t < n")
    case False
    with "1.prems" show ?thesis by (subst simulateTickets.simps) simp
  next
    case tn: True
    have tsn: "t < Suc n" using tn by simp
    show ?thesis
    proof (cases "sampleCycleTime hist (rnd t)")
      case None
      with tsn have "simulateTickets hist d rnd (Suc n) t u c = c"
        by (subst simulateTickets.simps) simp
      with "1.prems" tn show ?thesis by simp
    next
      case (Some ct)
      show ?thesis
      proof (cases "u + ct \<le> d")
        case False
        with tsn Some have "simulateTickets hist d rnd (Suc n) t u c = c"
          by (subst simulateTickets.simps) simp
        with "1.prems" tn show ?thesis by simp
      next
        case True
        with tsn Some have "simulateTickets hist d rnd (Suc n) t u c
            = simulateTickets hist d rnd (Suc n) (t + 1) (u + ct) (c + 1)"
          by (subst simulateTickets.simps) simp
        with "1.prems" tn have "simulateTickets hist d rnd (Suc n) (t + 1) (u + ct) (c + 1)
            = (c + 1) + (Suc n - (t + 1))" by simp
        with "1.IH" [OF tn Some True] tn
        have "simulateTickets hist d rnd n (t + 1) (u + ct) (c + 1) = (c + 1) + (n - (t + 1))"
          by simp
        with tn Some True show ?thesis by (subst simulateTickets.simps) simp
      qed
    qed
  qed
qed

lemma trial_all_done_fewer:
  "simulateTickets hist d rnd (Suc n) 0 0 0 = Suc n \<Longrightarrow> simulateTickets hist d rnd n 0 0 0 = n"
  using simulateTickets_all_done_fewer [of 0 n hist d rnd 0 0] by simp

lemma filter_map_length_mono:
  "(\<And>x. x \<in> set xs \<Longrightarrow> P (f x) \<Longrightarrow> Q (g x))
     \<Longrightarrow> length (filter P (map f xs)) \<le> length (filter Q (map g xs))"
  by (induction xs) auto

text \<open>
  C6. With the historical cycle times, the day budget, the number of iterations (at
  least one) and the random draws of every iteration and ticket held fixed, simulating
  \<open>n + 1\<close> tickets never reports a higher completion probability than simulating \<open>n\<close>.
\<close>

theorem completion_probability_antimono:
  assumes "0 < iterations"
  shows "completionProbability (runMonteCarloSimulation (Suc n) hist d iterations rnd)
       \<le> completionProbability (runMonteCarloSimulation n hist d iterations rnd)"
proof -
  have "length (filter (\<lambda>r. r = Suc n) (simulationResults (Suc n) hist d iterations rnd))
      \<le> length (filter (\<lambda>r. r = n) (simulationResults n hist d iterations rnd))"
    unfolding simulationResults_def
    by (rule filter_map_length_mono) (rule trial_all_done_fewer)
  then show ?thesis using assms
    by (simp add: runMonteCarloSimulation_def Let_def divide_right_mono)
qed

lemma first_sample_trial_3:
  "simulateTickets [3, 4] 10 (first_sample i) 3 0 0 0 = 3"
  by (simp add: simulateTickets.simps sampleCycleTime_def first_sample_def)

lemma first_sample_trial_4:
  "simulateTickets [3, 4] 10 (first_sample i) 4 0 0 0 = 3"
  by (simp add: simulateTickets.simps sampleCycleTime_def first_sample_def)

theorem completion_probability_antimono_witness:
  "completionProbability (runMonteCarloSimulation 4 [3, 4] 10 2 first_sample) = 0
   \<and> completionProbability (runMonteCarloSimulation 3 [3, 4] 10 2 first_sample) = 1
   \<and> completionProbability (runMonteCarloSimulation (Suc 3) [3, 4] 10 2 first_sample)
       \<le> completionProbability (runMonteCarloSimulation 3 [3, 4] 10 2 first_sample)"
proof -
  have i: "(0::nat) < 2" by simp
  have two: "[0..<2] = [0, 1::nat]" by code_simp
  have a: "completionProbability (runMonteCarloSimulation 4 [3, 4] 10 2 first_sample) = 0"
    by (simp add: runMonteCarloSimulation_def simulationResults_def two first_sample_trial_4
        Let_def)
  have b: "completionProbability (runMonteCarloSimulation 3 [3, 4] 10 2 first_sample) = 1"
    by (simp add: runMonteCarloSimulation_def simulationResults_def two first_sample_trial_3
        Let_def)
  from completion_probability_antimono [OF i, of 3 "[3, 4]" 10 first_sample] a b
  show ?thesis by simp
qed

subsection \<open>Cache first\<close>

text \<open>
  On a cache hit the analyzers for timing, strengths, collaboration, trends, pit crew and
  sprint prediction return the cached result whatever the history and the helpers are;
  the load analyzer returns it with the current load and its status refreshed.
\<close>

lemma cache_hit_returns_cached:
  "(getCached (cacheKeyOf NS_timing a) 24 now s1 = (Some c1, s1') \<longrightarrow>
      analyzeTimingPatterns a now issues h1 s1 = Inr (c1, s1'))
   \<and> (getCached (cacheKeyOf NS_strengths a) 24 now s2 = (Some c2, s2') \<longrightarrow>
      analyzeStrengthPatterns a now issues h2 s2 = Inr (c2, s2'))
   \<and> (getCached (cacheKeyOf NS_collaboration a) 24 now s3 = (Some c3, s3') \<longrightarrow>
      analyzeCollaborationPatterns a now issues s3 = Inr (c3, s3'))
   \<and> (getCached (cacheKeyOf NS_trends a) 24 now s4 = (Some c4, s4') \<longrightarrow>
      analyzeTrends a now issues h4 s4 = Inr (c4, s4'))
   \<and> (getCached (cacheKeyOf NS_pitcrew a) 24 now s5 = (Some c5, s5') \<longrightarrow>
      analyzePitCrewPatterns a now issues h5 s5 = Inr (c5, s5'))
   \<and> (getCached (cacheKeyOf NS_predictions a) 1 now s6 = (Some c6, s6') \<longrightarrow>
      predictSprintCompletion a now active issues rnd h6 s6 = Inr (c6, s6'))
   \<and> (getCached (cacheKeyOf NS_load a) 24 now s7 = (Some c7, s7') \<longrightarrow>
      analyzeLoadPatterns a now issues n h7 s7 =
        Inr (c7\<lparr>currentLoad := n, currentStatus := determineLoadStatus n (optimalRange c7)\<rparr>, s7'))"
  by (simp add: analyzeTimingPatterns_def analyzeStrengthPatterns_def
      analyzeCollaborationPatterns_def analyzeTrends_def analyzePitCrewPatterns_def
      predictSprintCompletion_def analyzeLoadPatterns_def)

lemma burnout_cache_hit:
  "getCached (cacheKeyOf NS_burnout ''u1'') 6 sample_now burnout_cached_store
     = (Some cached_burnout, burnout_cached_store)"
  by (simp add: getCached_def storage_get_def burnout_cached_store_def Let_def
      sample_now_def msPerHour_def msPerDay_def)

text \<open>
  C8. Every analyzer entry point is stated to return a cached result that is of the
  current version and not expired. The store holds such a result for the burnout
  analyzer, with score 40; the burnout analyzer reads it, computes anew from the fetched
  history and returns the new analysis, with score 5.
\<close>

theorem analyzeBurnoutRisk_ignores_cache:
  "fst (getCached (cacheKeyOf NS_burnout ''u1'') 6 sample_now burnout_cached_store)
     = Some cached_burnout
   \<and> map_sum id fst
       (analyzeBurnoutRisk ''u1'' sample_now 12 quiet_issues sample_load sample_timing
          burnout_cached_store) = Inr quiet_analysis
   \<and> burnoutScore quiet_analysis = 5 \<and> burnoutScore cached_burnout = 40"
proof -
  have l: "length quiet_issues = 5" by (simp add: quiet_issues_def)
  have "map_sum id fst
       (analyzeBurnoutRisk ''u1'' sample_now 12 quiet_issues sample_load sample_timing
          burnout_cached_store) = Inr quiet_analysis"
    unfolding analyzeBurnoutRisk_def burnout_cache_hit Let_def quiet_factors
    by (simp add: l quiet_weeks setCache_def storage_set_def burnout_cached_store_def
        calculateBurnoutScore_def baselineFactor_def withBaseline_def determinRiskLevel_def
        quiet_analysis_def)
  then show ?thesis
    by (simp add: burnout_cache_hit quiet_analysis_def cached_burnout_def)
qed

subsection \<open>Insufficient data\<close>

text \<open>
  C9. For a fetched history of exactly 4 issues every analyzer returns its response for
  insufficient data, whose confidence is low, and no error. The analyzers that return
  from the cache fetch the history only after a cache miss; the burnout analyzer fetches
  it in any case.
\<close>

theorem insufficient_data_at_four:
  assumes "length issues = 4"
  shows
    "(fst (getCached (cacheKeyOf NS_timing a) 24 now s1) = None \<longrightarrow>
        (\<exists>r st'. analyzeTimingPatterns a now issues h1 s1 = Inr (r, st')
           \<and> r = createInsufficientDataResponse_timing a 4 now \<and> confidence r = C_low))
     \<and> (fst (getCached (cacheKeyOf NS_load a) 24 now s2) = None \<longrightarrow>
        (\<exists>r st'. analyzeLoadPatterns a now issues n h2 s2 = Inr (r, st')
           \<and> r = createInsufficientDataResponse_load a 4 now \<and> confidence r = C_low))
     \<and> (fst (getCached (cacheKeyOf NS_strengths a) 24 now s3) = None \<longrightarrow>
        (\<exists>r st'. analyzeStrengthPatterns a now issues h3 s3 = Inr (r, st')
           \<and> r = createInsufficientDataResponse_strengths a 4 now \<and> confidence r = C_low))
     \<and> (fst (getCached (cacheKeyOf NS_trends a) 24 now s4) = None \<longrightarrow>
        (\<exists>r st'. analyzeTrends a now issues h4 s4 = Inr (r, st')
           \<and> r = createInsufficientDataResponse_trends a 4 now \<and> confidence r = C_low))
     \<and> (fst (getCached (cacheKeyOf NS_collaboration a) 24 now s5) = None \<longrightarrow>
        (\<exists>r st'. analyzeCollaborationPatterns a now issues s5 = Inr (r, st')
           \<and> r = createInsufficientDataResponse_collaboration a 4 now \<and> confidence r = C_low))
     \<and> (fst (getCached (cacheKeyOf NS_pitcrew a) 24 now s6) = None \<longrightarrow>
        (\<exists>r st'. analyzePitCrewPatterns a now issues h6 s6 = Inr (r, st')
           \<and> r = createInsufficientDataResponse_pitcrew a 4 now \<and> confidence r = C_low))
     \<and> (fst (getCached (cacheKeyOf NS_predictions a) 1 now s7) = None \<longrightarrow>
        (\<exists>r st'. predictSprintCompletion a now active issues rnd h7 s7 = Inr (r, st')
           \<and> r = createInsufficientDataResponse_predictions a 4 now \<and> confidence r = C_low))
     \<and> (\<exists>r st'. analyzeBurnoutRisk a now hour issues la ta s8 = Inr (r, st')
           \<and> r = createInsufficientDataResponse_burnout a 4 now \<and> confidence r = C_low)"
proof -
  have timing: "\<exists>r st'. analyzeTimingPatterns a now issues h1 s1 = Inr (r, st')
           \<and> r = createInsufficientDataResponse_timing a 4 now \<and> confidence r = C_low"
    if "fst (getCached (cacheKeyOf NS_timing a) 24 now s1) = None"
    using that assms
    by (cases "getCached (cacheKeyOf NS_timing a) 24 now s1")
      (simp add: analyzeTimingPatterns_def createInsufficientDataResponse_timing_def)
  have load: "\<exists>r st'. analyzeLoadPatterns a now issues n h2 s2 = Inr (r, st')
           \<and> r = createInsufficientDataResponse_load a 4 now \<and> confidence r = C_low"
    if "fst (getCached (cacheKeyOf NS_load a) 24 now s2) = None"
    using that assms
    by (cases "getCached (cacheKeyOf NS_load a) 24 now s2")
      (simp add: analyzeLoadPatterns_def createInsufficientDataResponse_load_def)
  have strengths: "\<exists>r st'. analyzeStrengthPatterns a now issues h3 s3 = Inr (r, st')
           \<and> r = createInsufficientDataResponse_strengths a 4 now \<and> confidence r = C_low"
    if "fst (getCached (cacheKeyOf NS_strengths a) 24 now s3) = None"
    using that assms
    by (cases "getCached (cacheKeyOf NS_strengths a) 24 now s3")
      (simp add: analyzeStrengthPatterns_def createInsufficientDataResponse_strengths_def)
  have trends': "\<exists>r st'. analyzeTrends a now issues h4 s4 = Inr (r, st')
           \<and> r = createInsufficientDataResponse_trends a 4 now \<and> confidence r = C_low"
    if "fst (getCached (cacheKeyOf NS_trends a) 24 now s4) = None"
    using that assms
    by (cases "getCached (cacheKeyOf NS_trends a) 24 now s4")
      (simp add: analyzeTrends_def createInsufficientDataResponse_trends_def)
  have collaboration: "\<exists>r st'. analyzeCollaborationPatterns a now issues s5 = Inr (r, st')
           \<and> r = createInsufficientDataResponse_collaboration a 4 now \<and> confidence r = C_low"
    if "fst (getCached (cacheKeyOf NS_collaboration a) 24 now s5) = None"
    using that assms
    by (cases "getCached (cacheKeyOf NS_collaboration a) 24 now s5")
      (simp add: analyzeCollaborationPatterns_def createInsufficientDataResponse_collaboration_def)
  have pitcrew: "\<exists>r st'. analyzePitCrewPatterns a now issues h6 s6 = Inr (r, st')
           \<and> r = createInsufficientDataResponse_pitcrew a 4 now \<and> confidence r = C_low"
    if "fst (getCached (cacheKeyOf NS_pitcrew a) 24 now s6) = None"
    using that assms
    by (cases "getCached (cacheKeyOf NS_pitcrew a) 24 now s6")
      (simp add: analyzePitCrewPatterns_def createInsufficientDataResponse_pitcrew_def)
  have predictions': "\<exists>r st'. predictSprintCompletion a now active issues rnd h7 s7 = Inr (r, st')
           \<and> r = createInsufficientDataResponse_predictions a 4 now \<and> confidence r = C_low"
    if "fst (getCached (cacheKeyOf NS_predictions a) 1 now s7) = None"
    using that assms
    by (cases "getCached (cacheKeyOf NS_predictions a) 1 now s7")
      (simp add: predictSprintCompletion_def createInsufficientDataResponse_predictions_def)
  have burnout: "\<exists>r st'. analyzeBurnoutRisk a now hour issues la ta s8 = Inr (r, st')
           \<and> r = createInsufficientDataResponse_burnout a 4 now \<and> confidence r = C_low"
    using assms
    by (cases "getCached (cacheKeyOf NS_burnout a) 6 now s8")
      (simp add: analyzeBurnoutRisk_def createInsufficientDataResponse_burnout_def)
  from timing load strengths trends' collaboration pitcrew predictions' burnout
  show ?thesis by blast
qed

lemma empty_store_miss: "getCached k ttl now empty_store = (None, empty_store)"
  by (simp add: getCached_def storage_get_def empty_store_def)

theorem insufficient_data_at_four_witness:
  "(\<exists>st'. analyzeTimingPatterns ''u1'' sample_now four_issues timing_helpers empty_store
       = Inr (createInsufficientDataResponse_timing ''u1'' 4 sample_now, st'))
   \<and> (\<exists>st'. analyzeLoadPatterns ''u1'' sample_now four_issues 2 load_helper empty_store
       = Inr (createInsufficientDataResponse_load ''u1'' 4 sample_now, st'))
   \<and> (\<exists>st'. analyzeStrengthPatterns ''u1'' sample_now four_issues strength_helpers empty_store
       = Inr (createInsufficientDataResponse_strengths ''u1'' 4 sample_now, st'))
   \<and> (\<exists>st'. analyzeTrends ''u1'' sample_now four_issues trend_helpers empty_store
       = Inr (createInsufficientDataResponse_trends ''u1'' 4 sample_now, st'))
   \<and> (\<exists>st'. analyzeCollaborationPatterns ''u1'' sample_now four_issues
               (empty_store :: (unit, unit, unit) CollaborationAnalysis Storage)
       = Inr (createInsufficientDataResponse_collaboration ''u1'' 4 sample_now, st'))
   \<and> (\<exists>st'. analyzePitCrewPatterns ''u1'' sample_now four_issues pitcrew_helpers empty_store
       = Inr (createInsufficientDataResponse_pitcrew ''u1'' 4 sample_now, st'))
   \<and> (\<exists>st'. predictSprintCompletion ''u1'' sample_now four_issues four_issues
               (\<lambda>call. first_sample) risk_helper empty_store
       = Inr (createInsufficientDataResponse_predictions ''u1'' 4 sample_now, st'))
   \<and> (\<exists>st'. analyzeBurnoutRisk ''u1'' sample_now 12 four_issues sample_load sample_timing
               empty_store
       = Inr (createInsufficientDataResponse_burnout ''u1'' 4 sample_now, st'))
   \<and> confidence (createInsufficientDataResponse_burnout ''u1'' 4 sample_now) = C_low"
proof -
  have l: "length four_issues = 4" by (simp add: four_issues_def)
  from insufficient_data_at_four [OF l, of "''u1''" sample_now empty_store timing_helpers
      empty_store 2 load_helper empty_store strength_helpers empty_store trend_helpers
      "empty_store :: (unit, unit, unit) CollaborationAnalysis Storage"
      empty_store pitcrew_helpers empty_store four_issues "\<lambda>call. first_sample" risk_helper
      12 sample_load sample_timing empty_store]
  show ?thesis
    by (simp add: empty_store_miss createInsufficientDataResponse_burnout_def)
qed

end
